theory Spec2Isabelle
  imports Main "HOL-Library.AList" "HOL-Library.Char_ord" "HOL-Library.List_Lexorder"
    "HOL-Library.Multiset"
begin

section \<open>Python values\<close>

text \<open>
  Every entity of the clinic system is a Python \<^verbatim>\<open>dict\<close> loaded from one JSON document.
  Field values are dynamically typed, so the model keeps them dynamically typed: an
  \<open>atom\<close> is a scalar JSON value or a \<^verbatim>\<open>datetime\<close> object (the visit manager keeps
  \<^verbatim>\<open>start_time\<close> as an object while a visit is active). JSON numbers with a fractional
  part are not part of the model. Strings are sequences of 8-bit characters.

  A \<^verbatim>\<open>datetime\<close> is either naive (\<open>Naive t\<close>: \<open>t\<close> microseconds of wall-clock time
  since 0001-01-01T00:00:00) or timezone-aware (\<open>Aware t off\<close>: the same wall-clock
  reading together with its UTC offset in microseconds).
\<close>

datatype pydt = Naive int | Aware int int

datatype pyexn = TypeError | ValueError | KeyError | AttributeError | OverflowError

datatype atom = VNone | VBool bool | VInt int | VStr string | VDateTime pydt

text \<open>Patient records nest lists and dictionaries (histories, medications).\<close>

datatype pyval = Atom atom | PList "pyval list" | PDict "(string \<times> pyval) list"

text \<open>A flat record (appointment, visit, test result) and a nested one (patient).\<close>

type_synonym pydict = "(string \<times> atom) list"
type_synonym pyobj = "(string \<times> pyval) list"

text \<open>Truth value testing (\<^verbatim>\<open>if not x\<close>).\<close>

fun py_truthy :: "atom \<Rightarrow> bool" where
  "py_truthy VNone = False"
| "py_truthy (VBool b) = b"
| "py_truthy (VInt n) = (n \<noteq> 0)"
| "py_truthy (VStr s) = (s \<noteq> [])"
| "py_truthy (VDateTime d) = True"

fun val_truthy :: "pyval \<Rightarrow> bool" where
  "val_truthy (Atom a) = py_truthy a"
| "val_truthy (PList xs) = (xs \<noteq> [])"
| "val_truthy (PDict d) = (d \<noteq> [])"

text \<open>
  Python's \<^verbatim>\<open>==\<close> on atoms: \<^verbatim>\<open>True == 1\<close>, aware datetimes are equal when they denote
  the same instant, a naive and an aware datetime are never equal. Two atoms are equal
  exactly when their canonical forms coincide.
\<close>

fun canon :: "atom \<Rightarrow> atom" where
  "canon (VBool b) = VInt (if b then 1 else 0)"
| "canon (VDateTime (Aware t off)) = VDateTime (Aware (t - off) 0)"
| "canon a = a"

definition py_eq :: "atom \<Rightarrow> atom \<Rightarrow> bool" where
  "py_eq a b \<longleftrightarrow> canon a = canon b"

subsection \<open>The datetime module\<close>

text \<open>
  \<^verbatim>\<open>datetime.min\<close> is 0001-01-01T00:00:00 and \<^verbatim>\<open>datetime.max\<close> is
  9999-12-31T23:59:59.999999, that is 3652059 days; a \<^verbatim>\<open>timedelta\<close> lies between
  -999999999 days and 999999999 days, 23:59:59.999999. Arithmetic that leaves these
  ranges raises \<^verbatim>\<open>OverflowError\<close>.
\<close>

definition minute_us :: int where
  "minute_us = 60000000"

definition day_us :: int where
  "day_us = 86400000000"

definition dt_limit :: int where
  "dt_limit = 3652059 * day_us"

text \<open>\<^verbatim>\<open>datetime.timedelta(minutes=v)\<close> for \<open>unit = minute_us\<close>, \<^verbatim>\<open>days=v\<close> for \<open>day_us\<close>.\<close>

fun timedelta :: "int \<Rightarrow> atom \<Rightarrow> pyexn + int" where
  "timedelta unit (VInt n) =
     (if - 999999999 * day_us \<le> n * unit \<and> n * unit < 1000000000 * day_us
      then Inr (n * unit) else Inl OverflowError)"
| "timedelta unit (VBool b) = Inr (if b then unit else 0)"
| "timedelta unit v = Inl TypeError"

text \<open>\<^verbatim>\<open>d + delta\<close>: the wall-clock reading moves, the offset stays.\<close>

fun dt_add :: "pydt \<Rightarrow> int \<Rightarrow> pyexn + pydt" where
  "dt_add (Naive t) delta =
     (if 0 \<le> t + delta \<and> t + delta < dt_limit then Inr (Naive (t + delta))
      else Inl OverflowError)"
| "dt_add (Aware t off) delta =
     (if 0 \<le> t + delta \<and> t + delta < dt_limit then Inr (Aware (t + delta) off)
      else Inl OverflowError)"

text \<open>
  \<^verbatim>\<open>a < b\<close> on datetimes: naive with naive by wall clock, aware with aware by instant,
  naive with aware raises \<^verbatim>\<open>TypeError\<close>. \<^verbatim>\<open>a > b\<close> is \<open>dt_less b a\<close>.
\<close>

fun dt_less :: "pydt \<Rightarrow> pydt \<Rightarrow> pyexn + bool" where
  "dt_less (Naive a) (Naive b) = Inr (a < b)"
| "dt_less (Aware a oa) (Aware b ob) = Inr (a - oa < b - ob)"
| "dt_less a b = Inl TypeError"

text \<open>
  The parsing and formatting functions of the standard library are parameters of the
  model: \<open>fromisoformat\<close> is \<^verbatim>\<open>datetime.datetime.fromisoformat\<close> on a string,
  \<open>strptime\<close> is \<^verbatim>\<open>datetime.datetime.strptime(s, "%Y-%m-%d %H:%M:%S")\<close> (its result is
  always naive), both with \<open>None\<close> for \<^verbatim>\<open>ValueError\<close>; \<open>isoformat\<close> is
  \<^verbatim>\<open>datetime.isoformat()\<close>. Every theorem below holds for every such library.
\<close>

record pylib =
  fromisoformat :: "string \<Rightarrow> pydt option"
  strptime :: "string \<Rightarrow> int option"
  isoformat :: "pydt \<Rightarrow> string"

text \<open>\<^verbatim>\<open>datetime.datetime.fromisoformat(v)\<close> on any value: only strings are accepted.\<close>

fun py_fromisoformat :: "pylib \<Rightarrow> atom \<Rightarrow> pyexn + pydt" where
  "py_fromisoformat L (VStr s) =
     (case fromisoformat L s of None \<Rightarrow> Inl ValueError | Some d \<Rightarrow> Inr d)"
| "py_fromisoformat L v = Inl TypeError"

text \<open>\<^verbatim>\<open>datetime.datetime.now().isoformat()\<close>, the clock reading being \<open>now\<close>.\<close>

definition now_iso :: "pylib \<Rightarrow> int \<Rightarrow> atom" where
  "now_iso L now = VStr (isoformat L (Naive now))"

subsection \<open>Dictionaries\<close>

text \<open>
  A record is a dictionary with string keys, kept in insertion order:
  \<open>map_of\<close> reads it, \<open>AList.update\<close> assigns a key. \<open>py_get d k dflt\<close> is
  \<^verbatim>\<open>d.get(k, dflt)\<close>.
\<close>

definition py_get :: "(string \<times> 'v) list \<Rightarrow> string \<Rightarrow> 'v \<Rightarrow> 'v" where
  "py_get d k dflt = (case map_of d k of None \<Rightarrow> dflt | Some v \<Rightarrow> v)"

text \<open>\<^verbatim>\<open>d.update(u)\<close>, also the loop \<^verbatim>\<open>for key, value in u.items(): d[key] = value\<close>.\<close>

definition dict_update :: "(string \<times> 'v) list \<Rightarrow> (string \<times> 'v) list \<Rightarrow> (string \<times> 'v) list" where
  "dict_update d u = fold (\<lambda>(k, v). AList.update k v) u d"

text \<open>
  The entity collections are dictionaries keyed by identifiers. An identifier can be
  any atom (the caller may supply it in the \<^verbatim>\<open>id\<close> field); keys are compared with
  \<^verbatim>\<open>==\<close>. Assigning to a key that is present keeps its position and its key object, a
  new key goes to the end.
\<close>

fun dict_get :: "(atom \<times> 'v) list \<Rightarrow> atom \<Rightarrow> 'v option" where
  "dict_get [] k = None"
| "dict_get ((k', v) # d) k = (if py_eq k' k then Some v else dict_get d k)"

fun dict_set :: "(atom \<times> 'v) list \<Rightarrow> atom \<Rightarrow> 'v \<Rightarrow> (atom \<times> 'v) list" where
  "dict_set [] k v = [(k, v)]"
| "dict_set ((k', v') # d) k v =
     (if py_eq k' k then (k', v) # d else (k', v') # dict_set d k v)"

fun dict_del :: "(atom \<times> 'v) list \<Rightarrow> atom \<Rightarrow> (atom \<times> 'v) list" where
  "dict_del [] k = []"
| "dict_del ((k', v') # d) k = (if py_eq k' k then d else (k', v') # dict_del d k)"

text \<open>A dictionary holds no two entries with equal keys.\<close>

fun dict_ok :: "(atom \<times> 'v) list \<Rightarrow> bool" where
  "dict_ok [] = True"
| "dict_ok ((k, v) # d) = (dict_get d k = None \<and> dict_ok d)"

definition entries_for :: "(atom \<times> 'v) list \<Rightarrow> atom \<Rightarrow> (atom \<times> 'v) list" where
  "entries_for d k = filter (\<lambda>(k', v). py_eq k' k) d"

subsection \<open>Outcomes\<close>

text \<open>
  Every mutating operation returns \<^verbatim>\<open>(success, message)\<close>. The failures are named after
  the kinds of the error taxonomy; \<open>Error e\<close> is the message \<^verbatim>\<open>"Error: ..."\<close> of the
  \<^verbatim>\<open>except Exception\<close> handler that wraps each operation. An operation returns its outcome
  together with the state it leaves behind.
\<close>

datatype failure =
    DuplicateID
  | ValidationError string
  | ConflictError
  | NotFound
  | AlreadyActive
  | NoActiveVisit
  | HasActiveVisit
  | Error pyexn

section \<open>Appointments (models/appointment\_manager.py)\<close>

type_synonym appointments = "(atom \<times> pydict) list"

text \<open>
  The interval \<^verbatim>\<open>[datetime, datetime + timedelta(minutes=duration))\<close> of an appointment
  record, as \<^verbatim>\<open>_check_appointment_available\<close> computes it for the request (lines 288-291)
  and for each stored appointment (lines 305-307).
\<close>

definition appt_interval :: "pylib \<Rightarrow> pydict \<Rightarrow> pyexn + (pydt \<times> pydt)" where
  "appt_interval L a =
     (case py_fromisoformat L (py_get a ''datetime'' (VStr '''')) of
        Inl e \<Rightarrow> Inl e
      | Inr start \<Rightarrow>
          (case timedelta minute_us (py_get a ''duration'' (VInt 30)) of
             Inl e \<Rightarrow> Inl e
           | Inr delta \<Rightarrow>
               (case dt_add start delta of
                  Inl e \<Rightarrow> Inl e
                | Inr end \<Rightarrow> Inr (start, end))))"

text \<open>
  \<^verbatim>\<open>appointment_datetime < existing_end and appointment_end > existing_datetime\<close>;
  the second comparison is only evaluated when the first is true.
\<close>

definition overlaps :: "pydt \<times> pydt \<Rightarrow> pydt \<times> pydt \<Rightarrow> pyexn + bool" where
  "overlaps a b =
     (case dt_less (fst a) (snd b) of
        Inl e \<Rightarrow> Inl e
      | Inr False \<Rightarrow> Inr False
      | Inr True \<Rightarrow> dt_less (fst b) (snd a))"

text \<open>
  The loop of \<^verbatim>\<open>_check_appointment_available\<close> over \<^verbatim>\<open>self.appointments.items()\<close>:
  \<open>False\<close> as soon as one appointment conflicts. An exception while looking at one
  stored appointment skips that appointment.
\<close>

fun no_conflict :: "pylib \<Rightarrow> atom \<Rightarrow> pydt \<times> pydt \<Rightarrow> atom \<Rightarrow> appointments \<Rightarrow> bool" where
  "no_conflict L doctor req exclude_id [] = True"
| "no_conflict L doctor req exclude_id ((appt_id, appt_data) # rest) =
     (if py_truthy exclude_id \<and> py_eq appt_id exclude_id
        then no_conflict L doctor req exclude_id rest
      else if \<not> py_eq (py_get appt_data ''doctor'' VNone) doctor
        then no_conflict L doctor req exclude_id rest
      else (case appt_interval L appt_data of
              Inl e \<Rightarrow> no_conflict L doctor req exclude_id rest
            | Inr existing \<Rightarrow>
                (case overlaps req existing of
                   Inr True \<Rightarrow> False
                 | Inr False \<Rightarrow> no_conflict L doctor req exclude_id rest
                 | Inl e \<Rightarrow> no_conflict L doctor req exclude_id rest)))"

text \<open>
  \<^verbatim>\<open>_check_appointment_available(appointment_data, exclude_id)\<close>; \<open>exclude_id\<close> is
  \<open>VNone\<close> when the argument is left out. Any exception in the request's own data makes
  the answer \<open>False\<close>.
\<close>

definition check_appointment_available :: "pylib \<Rightarrow> appointments \<Rightarrow> pydict \<Rightarrow> atom \<Rightarrow> bool" where
  "check_appointment_available L appointments appointment_data exclude_id =
     (let datetime_str = py_get appointment_data ''datetime'' (VStr '''');
          doctor = py_get appointment_data ''doctor'' (VStr '''')
      in if \<not> py_truthy datetime_str \<or> \<not> py_truthy doctor then False
         else (case appt_interval L appointment_data of
                 Inl e \<Rightarrow> False
               | Inr req \<Rightarrow> no_conflict L doctor req exclude_id appointments))"

text \<open>
  \<^verbatim>\<open>add_appointment(appointment_data)\<close>. \<open>now\<close> is the clock, \<open>uuid\<close> the value of
  \<^verbatim>\<open>str(uuid.uuid4())\<close>.
\<close>

definition add_appointment ::
  "pylib \<Rightarrow> int \<Rightarrow> string \<Rightarrow> appointments \<Rightarrow> pydict \<Rightarrow> (failure + unit) \<times> appointments" where
  "add_appointment L now uuid appointments appointment_data =
     (let appointment_id = py_get appointment_data ''id'' (VStr uuid)
      in if dict_get appointments appointment_id \<noteq> None then (Inl DuplicateID, appointments)
         else if \<not> py_truthy (py_get appointment_data ''patient_id'' VNone)
           then (Inl (ValidationError ''patient_id''), appointments)
         else if \<not> py_truthy (py_get appointment_data ''datetime'' VNone)
           then (Inl (ValidationError ''datetime''), appointments)
         else if \<not> check_appointment_available L appointments appointment_data VNone
           then (Inl ConflictError, appointments)
         else
           (let data1 = AList.update ''created_on'' (now_iso L now) appointment_data;
                data2 = (if map_of data1 ''status'' = None
                         then AList.update ''status'' (VStr ''scheduled'') data1 else data1)
            in (Inr (), dict_set appointments appointment_id data2)))"

text \<open>\<^verbatim>\<open>update_appointment(appointment_id, updated_data)\<close>.\<close>

definition update_appointment ::
  "pylib \<Rightarrow> int \<Rightarrow> appointments \<Rightarrow> atom \<Rightarrow> pydict \<Rightarrow> (failure + unit) \<times> appointments" where
  "update_appointment L now appointments appointment_id updated_data =
     (case dict_get appointments appointment_id of
        None \<Rightarrow> (Inl NotFound, appointments)
      | Some appointment \<Rightarrow>
          (let date_changed =
                 (py_get updated_data ''datetime'' VNone \<noteq> VNone \<and>
                  \<not> py_eq (py_get updated_data ''datetime'' VNone)
                          (py_get appointment ''datetime'' VNone));
               doctor_changed =
                 (py_get updated_data ''doctor'' VNone \<noteq> VNone \<and>
                  \<not> py_eq (py_get updated_data ''doctor'' VNone)
                          (py_get appointment ''doctor'' VNone))
           in if (date_changed \<or> doctor_changed) \<and>
                 \<not> check_appointment_available L appointments
                     (dict_update appointment updated_data) appointment_id
              then (Inl ConflictError, appointments)
              else
                (let appointment1 = dict_update appointment updated_data;
                     appointment2 = AList.update ''last_updated'' (now_iso L now) appointment1
                 in (Inr (), dict_set appointments appointment_id appointment2))))"

section \<open>Patients and visits (models/patient\_manager.py)\<close>

text \<open>
  The manager holds the patient records and the active visits, both keyed by patient
  identifier. \<^verbatim>\<open>save_data\<close> writes deep copies into the configuration document and
  leaves both dictionaries as they are; \<^verbatim>\<open>save_config\<close> catches its own exceptions.
\<close>

record pm_state =
  patients :: "(atom \<times> pyobj) list"
  active_visits :: "(atom \<times> pydict) list"

text \<open>\<^verbatim>\<open>copy.deepcopy(visit_data)\<close> as an element of a history list.\<close>

definition visit_snapshot :: "pydict \<Rightarrow> pyval" where
  "visit_snapshot v = PDict (map (\<lambda>(k, a). (k, Atom a)) v)"

text \<open>
  \<^verbatim>\<open>obj[k].append(x)\<close>: \<^verbatim>\<open>KeyError\<close> without the key, \<^verbatim>\<open>AttributeError\<close> when the
  value is no list.
\<close>

definition list_append :: "pyobj \<Rightarrow> string \<Rightarrow> pyval \<Rightarrow> pyexn + pyobj" where
  "list_append obj k x =
     (case map_of obj k of
        None \<Rightarrow> Inl KeyError
      | Some (PList xs) \<Rightarrow> Inr (AList.update k (PList (xs @ [x])) obj)
      | Some v \<Rightarrow> Inl AttributeError)"

text \<open>\<^verbatim>\<open>str(n)\<close> for a natural number.\<close>

fun str_nat :: "nat \<Rightarrow> string" where
  "str_nat n =
     (if n < 10 then [char_of (48 + n)]
      else str_nat (n div 10) @ [char_of (48 + n mod 10)])"

declare str_nat.simps [simp del]

text \<open>
  The closing \<^verbatim>\<open>return True, f"... {self.patients[patient_id]['name']}"\<close> of several
  operations: a patient record without \<^verbatim>\<open>name\<close> raises \<^verbatim>\<open>KeyError\<close> there, after the
  state has been changed and saved.
\<close>

definition return_named :: "pyobj \<Rightarrow> failure + unit" where
  "return_named patient =
     (case map_of patient ''name'' of None \<Rightarrow> Inl (Error KeyError) | Some n \<Rightarrow> Inr ())"

text \<open>\<^verbatim>\<open>add_patient(patient_data)\<close>. A list or a dictionary as \<^verbatim>\<open>id\<close> is unhashable.\<close>

definition add_patient :: "pylib \<Rightarrow> int \<Rightarrow> pm_state \<Rightarrow> pyobj \<Rightarrow> (failure + unit) \<times> pm_state" where
  "add_patient L now pm patient_data =
     (case py_get patient_data ''id'' (Atom (VStr (str_nat (length (patients pm) + 1)))) of
        Atom patient_id \<Rightarrow>
          if dict_get (patients pm) patient_id \<noteq> None then (Inl DuplicateID, pm)
          else if \<not> val_truthy (py_get patient_data ''name'' (Atom VNone))
            then (Inl (ValidationError ''name''), pm)
          else
            (let data1 = AList.update ''created_on'' (Atom (now_iso L now)) patient_data;
                 data2 = (if map_of data1 ''medical_history'' = None
                          then AList.update ''medical_history'' (PList []) data1 else data1);
                 data3 = (if map_of data2 ''visit_history'' = None
                          then AList.update ''visit_history'' (PList []) data2 else data2)
             in (Inr (), pm\<lparr>patients := dict_set (patients pm) patient_id data3\<rparr>))
      | v \<Rightarrow> (Inl (Error TypeError), pm))"

text \<open>\<^verbatim>\<open>update_patient(patient_id, updated_data)\<close>.\<close>

definition update_patient ::
  "pylib \<Rightarrow> int \<Rightarrow> pm_state \<Rightarrow> atom \<Rightarrow> pyobj \<Rightarrow> (failure + unit) \<times> pm_state" where
  "update_patient L now pm patient_id updated_data =
     (case dict_get (patients pm) patient_id of
        None \<Rightarrow> (Inl NotFound, pm)
      | Some patient \<Rightarrow>
          (let medical_history = py_get patient ''medical_history'' (PList []);
               visit_history = py_get patient ''visit_history'' (PList []);
               created_on = py_get patient ''created_on'' (Atom VNone);
               patient1 = dict_update patient
                  (filter (\<lambda>(key, v). key \<notin> {''medical_history'', ''visit_history'', ''created_on''})
                     updated_data);
               patient2 = AList.update ''medical_history'' medical_history patient1;
               patient3 = AList.update ''visit_history'' visit_history patient2;
               patient4 = AList.update ''created_on'' created_on patient3;
               patient5 = AList.update ''last_updated'' (Atom (now_iso L now)) patient4
           in (return_named patient5,
               pm\<lparr>patients := dict_set (patients pm) patient_id patient5\<rparr>)))"

text \<open>\<^verbatim>\<open>delete_patient(patient_id)\<close>.\<close>

definition delete_patient :: "pm_state \<Rightarrow> atom \<Rightarrow> (failure + unit) \<times> pm_state" where
  "delete_patient pm patient_id =
     (if dict_get (patients pm) patient_id = None then (Inl NotFound, pm)
      else if dict_get (active_visits pm) patient_id \<noteq> None then (Inl HasActiveVisit, pm)
      else (Inr (), pm\<lparr>patients := dict_del (patients pm) patient_id\<rparr>))"

text \<open>
  \<^verbatim>\<open>start_visit(patient_id, visit_data)\<close>; \<open>None\<close> for the default \<^verbatim>\<open>visit_data=None\<close>.
\<close>

definition start_visit ::
  "int \<Rightarrow> pm_state \<Rightarrow> atom \<Rightarrow> pydict option \<Rightarrow> (failure + unit) \<times> pm_state" where
  "start_visit now pm patient_id visit_data =
     (case dict_get (patients pm) patient_id of
        None \<Rightarrow> (Inl NotFound, pm)
      | Some patient \<Rightarrow>
          if dict_get (active_visits pm) patient_id \<noteq> None then (Inl AlreadyActive, pm)
          else
            (let data0 = (case visit_data of None \<Rightarrow> [] | Some d \<Rightarrow> d);
                 data1 = AList.update ''start_time'' (VDateTime (Naive now)) data0;
                 data2 = AList.update ''notes'' (py_get data1 ''notes'' (VStr '''')) data1;
                 data3 = AList.update ''doctor'' (py_get data2 ''doctor'' (VStr '''')) data2;
                 data4 = AList.update ''reason'' (py_get data3 ''reason'' (VStr '''')) data3;
                 data5 = AList.update ''status'' (VStr ''active'') data4
             in (return_named patient,
                 pm\<lparr>active_visits := dict_set (active_visits pm) patient_id data5\<rparr>)))"

text \<open>
  The visit record of \<^verbatim>\<open>end_visit\<close> after lines 247-255: the end time, the notes of
  the caller when \<^verbatim>\<open>visit_notes\<close> is given and not empty, the status.
\<close>

definition close_visit :: "pylib \<Rightarrow> int \<Rightarrow> pydict \<Rightarrow> pydict option \<Rightarrow> pydict" where
  "close_visit L now visit_data visit_notes =
     (let v1 = AList.update ''end_time'' (now_iso L now) visit_data;
          v2 = (case visit_notes of
                  None \<Rightarrow> v1
                | Some n \<Rightarrow>
                    if n = [] then v1
                    else
                      (let a = AList.update ''notes''
                                 (py_get n ''notes'' (py_get v1 ''notes'' (VStr ''''))) v1;
                           b = AList.update ''diagnosis'' (py_get n ''diagnosis'' (VStr '''')) a;
                           c = AList.update ''treatment'' (py_get n ''treatment'' (VStr '''')) b
                       in AList.update ''follow_up'' (py_get n ''follow_up'' (VStr '''')) c))
      in AList.update ''status'' (VStr ''completed'') v2)"

text \<open>Lines 258-259: a \<^verbatim>\<open>datetime\<close> object as start time becomes its ISO string.\<close>

definition start_time_as_string :: "pylib \<Rightarrow> pydict \<Rightarrow> pydict" where
  "start_time_as_string L v =
     (case map_of v ''start_time'' of
        Some (VDateTime d) \<Rightarrow> AList.update ''start_time'' (VStr (isoformat L d)) v
      | other \<Rightarrow> v)"

text \<open>
  \<^verbatim>\<open>visit_notes and "diagnosis" in visit_notes and visit_notes["diagnosis"]\<close>, and the
  entry that is then written to the medical history.
\<close>

definition diagnosis_given :: "pydict option \<Rightarrow> bool" where
  "diagnosis_given visit_notes =
     (case visit_notes of
        None \<Rightarrow> False
      | Some n \<Rightarrow> (case map_of n ''diagnosis'' of None \<Rightarrow> False | Some d \<Rightarrow> py_truthy d))"

definition diagnosis_entry :: "pylib \<Rightarrow> int \<Rightarrow> pydict \<Rightarrow> pyval" where
  "diagnosis_entry L now n =
     PDict [(''date'', Atom (now_iso L now)),
            (''type'', Atom (VStr ''diagnosis'')),
            (''condition'', Atom (py_get n ''diagnosis'' VNone)),
            (''notes'', Atom (py_get n ''notes'' (VStr ''''))),
            (''treatment'', Atom (py_get n ''treatment'' (VStr '''')))]"

text \<open>
  \<^verbatim>\<open>end_visit(patient_id, visit_notes)\<close>. \<open>now\<close> is the clock at line 247, \<open>now'\<close> at
  line 267. \<^verbatim>\<open>visit_data\<close> is the object stored in \<^verbatim>\<open>active_visits\<close>, so every
  assignment to it is visible in the state even when a later line raises.
\<close>

definition end_visit ::
  "pylib \<Rightarrow> int \<Rightarrow> int \<Rightarrow> pm_state \<Rightarrow> atom \<Rightarrow> pydict option \<Rightarrow> (failure + unit) \<times> pm_state" where
  "end_visit L now now' pm patient_id visit_notes =
     (case dict_get (patients pm) patient_id of
        None \<Rightarrow> (Inl NotFound, pm)
      | Some patient \<Rightarrow>
          (case dict_get (active_visits pm) patient_id of
             None \<Rightarrow> (Inl NoActiveVisit, pm)
           | Some visit_data \<Rightarrow>
               (let v1 = close_visit L now visit_data visit_notes;
                    pm1 = pm\<lparr>active_visits := dict_set (active_visits pm) patient_id v1\<rparr>
                in if map_of v1 ''start_time'' = None then (Inl (Error KeyError), pm1)
                   else
                     (let v2 = start_time_as_string L v1;
                          pm2 = pm\<lparr>active_visits := dict_set (active_visits pm) patient_id v2\<rparr>
                      in case list_append patient ''visit_history'' (visit_snapshot v2) of
                           Inl e \<Rightarrow> (Inl (Error e), pm2)
                         | Inr patient1 \<Rightarrow>
                             (case (if diagnosis_given visit_notes
                                    then list_append patient1 ''medical_history''
                                           (diagnosis_entry L now' (the visit_notes))
                                    else Inr patient1) of
                                Inl e \<Rightarrow>
                                  (Inl (Error e),
                                   pm2\<lparr>patients := dict_set (patients pm) patient_id patient1\<rparr>)
                              | Inr patient2 \<Rightarrow>
                                  (return_named patient2,
                                   \<lparr>patients = dict_set (patients pm) patient_id patient2,
                                    active_visits = dict_del (active_visits pm) patient_id\<rparr>))))))"

text \<open>\<^verbatim>\<open>update_visit_notes(patient_id, notes)\<close>.\<close>

definition update_visit_notes :: "pm_state \<Rightarrow> atom \<Rightarrow> atom \<Rightarrow> (failure + unit) \<times> pm_state" where
  "update_visit_notes pm patient_id notes =
     (case dict_get (active_visits pm) patient_id of
        None \<Rightarrow> (Inl NoActiveVisit, pm)
      | Some visit \<Rightarrow>
          (Inr (),
           pm\<lparr>active_visits :=
                dict_set (active_visits pm) patient_id (AList.update ''notes'' notes visit)\<rparr>))"

text \<open>\<^verbatim>\<open>add_medical_history(patient_id, medical_data)\<close>.\<close>

definition add_medical_history ::
  "pylib \<Rightarrow> int \<Rightarrow> pm_state \<Rightarrow> atom \<Rightarrow> pydict \<Rightarrow> (failure + unit) \<times> pm_state" where
  "add_medical_history L now pm patient_id medical_data =
     (case dict_get (patients pm) patient_id of
        None \<Rightarrow> (Inl NotFound, pm)
      | Some patient \<Rightarrow>
          if \<not> py_truthy (py_get medical_data ''condition'' VNone)
            then (Inl (ValidationError ''condition''), pm)
          else
            (let entry = PDict [(''date'', Atom (now_iso L now)),
                                (''type'', Atom (py_get medical_data ''type'' (VStr ''condition''))),
                                (''condition'', Atom (py_get medical_data ''condition'' VNone)),
                                (''notes'', Atom (py_get medical_data ''notes'' (VStr ''''))),
                                (''treatment'', Atom (py_get medical_data ''treatment'' (VStr '''')))];
                 patient1 = (if map_of patient ''medical_history'' = None
                             then AList.update ''medical_history'' (PList []) patient
                             else patient);
                 pm1 = pm\<lparr>patients := dict_set (patients pm) patient_id patient1\<rparr>
             in case list_append patient1 ''medical_history'' entry of
                  Inl e \<Rightarrow> (Inl (Error e), pm1)
                | Inr patient2 \<Rightarrow>
                    (Inr (), pm\<lparr>patients := dict_set (patients pm) patient_id patient2\<rparr>)))"

text \<open>The mutating operations of the manager as calls, and a sequence of calls.\<close>

datatype pm_call =
    AddPatient int pyobj
  | UpdatePatient int atom pyobj
  | DeletePatient atom
  | StartVisit int atom "pydict option"
  | EndVisit int int atom "pydict option"
  | UpdateVisitNotes atom atom
  | AddMedicalHistory int atom pydict

fun pm_step :: "pylib \<Rightarrow> pm_state \<Rightarrow> pm_call \<Rightarrow> (failure + unit) \<times> pm_state" where
  "pm_step L pm (AddPatient now d) = add_patient L now pm d"
| "pm_step L pm (UpdatePatient now p d) = update_patient L now pm p d"
| "pm_step L pm (DeletePatient p) = delete_patient pm p"
| "pm_step L pm (StartVisit now p d) = start_visit now pm p d"
| "pm_step L pm (EndVisit now now' p n) = end_visit L now now' pm p n"
| "pm_step L pm (UpdateVisitNotes p n) = update_visit_notes pm p n"
| "pm_step L pm (AddMedicalHistory now p d) = add_medical_history L now pm p d"

fun pm_run :: "pylib \<Rightarrow> pm_state \<Rightarrow> pm_call list \<Rightarrow> pm_state" where
  "pm_run L pm [] = pm"
| "pm_run L pm (c # cs) = pm_run L (snd (pm_step L pm c)) cs"

section \<open>Archiving (models/config\_manager.py)\<close>

text \<open>
  \<^verbatim>\<open>archive_old_visits\<close> works on the configuration document: the patient records
  under \<^verbatim>\<open>patients\<close> (a missing key reads as the empty dictionary) and the archive
  buckets under \<^verbatim>\<open>archived_visits\<close>, a key that the function creates when it is
  missing (\<open>None\<close>).
\<close>

record config =
  cfg_patients :: "(atom \<times> pyobj) list"
  archived_visits :: "(atom \<times> pyval) list option"

text \<open>
  \<^verbatim>\<open>for visit in v\<close>: a list gives its elements, a dictionary its keys, a string
  its characters; no other value can be iterated.
\<close>

fun py_iter :: "pyval \<Rightarrow> pyexn + pyval list" where
  "py_iter (PList xs) = Inr xs"
| "py_iter (PDict d) = Inr (map (\<lambda>(k, v). Atom (VStr k)) d)"
| "py_iter (Atom (VStr s)) = Inr (map (\<lambda>c. Atom (VStr [c])) s)"
| "py_iter (Atom a) = Inl TypeError"

text \<open>
  Lines 436-445: a string is parsed with \<^verbatim>\<open>fromisoformat\<close> and, when that raises
  \<^verbatim>\<open>ValueError\<close>, with the alternate format; any other value is taken as it is.
\<close>

fun visit_end_time :: "pylib \<Rightarrow> pyval \<Rightarrow> pyexn + pyval" where
  "visit_end_time L (Atom (VStr s)) =
     (case fromisoformat L s of
        Some t \<Rightarrow> Inr (Atom (VDateTime t))
      | None \<Rightarrow>
          (case strptime L s of
             Some t \<Rightarrow> Inr (Atom (VDateTime (Naive t)))
           | None \<Rightarrow> Inl ValueError))"
| "visit_end_time L v = Inr v"

text \<open>\<^verbatim>\<open>end_time > cutoff_date\<close>: only a datetime can be compared with the cutoff.\<close>

fun newer_than :: "pyval \<Rightarrow> pydt \<Rightarrow> pyexn + bool" where
  "newer_than (Atom (VDateTime t)) cutoff = dt_less cutoff t"
| "newer_than v cutoff = Inl TypeError"

text \<open>
  The body of the loop over one patient's visits (lines 427-456): \<open>True\<close> when the visit
  goes to \<^verbatim>\<open>visits_to_keep\<close>, \<open>False\<close> when it goes to \<^verbatim>\<open>visits_to_archive\<close>. A visit
  that is no dictionary has no \<^verbatim>\<open>get\<close>; every exception keeps the visit.
\<close>

fun keep_visit :: "pylib \<Rightarrow> pydt \<Rightarrow> pyval \<Rightarrow> bool" where
  "keep_visit L cutoff (PDict visit) =
     (let end_time_str = py_get visit ''end_time'' (Atom VNone)
      in if \<not> val_truthy end_time_str then True
         else (case visit_end_time L end_time_str of
                 Inl e \<Rightarrow> True
               | Inr end_time \<Rightarrow>
                   (case newer_than end_time cutoff of
                      Inl e \<Rightarrow> True
                    | Inr newer \<Rightarrow> newer)))"
| "keep_visit L cutoff v = True"

text \<open>
  Lines 462-469: the archived visits of one patient are appended to the patient's
  bucket, which is created when it is missing.
\<close>

definition extend_archive ::
  "(atom \<times> pyval) list option \<Rightarrow> atom \<Rightarrow> pyval list \<Rightarrow> pyexn + (atom \<times> pyval) list" where
  "extend_archive archived patient_id visits_to_archive =
     (let a = (case archived of None \<Rightarrow> [] | Some a \<Rightarrow> a)
      in case dict_get a patient_id of
           None \<Rightarrow> Inr (dict_set a patient_id (PList visits_to_archive))
         | Some (PList old) \<Rightarrow> Inr (dict_set a patient_id (PList (old @ visits_to_archive)))
         | Some v \<Rightarrow> Inl AttributeError)"

text \<open>
  The loop over \<^verbatim>\<open>patients.items()\<close>, with the running archive and count. It returns
  the exception that stopped it, if any, and the patients, archive and count as they
  are at that moment: the patients already visited stay rewritten.
\<close>

fun archive_loop ::
  "pylib \<Rightarrow> pydt \<Rightarrow> (atom \<times> pyobj) list \<Rightarrow> (atom \<times> pyval) list option \<Rightarrow> nat \<Rightarrow>
   pyexn option \<times> (atom \<times> pyobj) list \<times> (atom \<times> pyval) list option \<times> nat" where
  "archive_loop L cutoff [] archived archived_count = (None, [], archived, archived_count)"
| "archive_loop L cutoff ((patient_id, patient_data) # rest) archived archived_count =
     (case map_of patient_data ''visit_history'' of
        None \<Rightarrow>
          (case archive_loop L cutoff rest archived archived_count of
             (e, rest', archived', n) \<Rightarrow> (e, (patient_id, patient_data) # rest', archived', n))
      | Some visit_history \<Rightarrow>
          (case py_iter visit_history of
             Inl e \<Rightarrow> (Some e, (patient_id, patient_data) # rest, archived, archived_count)
           | Inr visits \<Rightarrow>
               (let visits_to_keep = filter (keep_visit L cutoff) visits;
                    visits_to_archive = filter (\<lambda>v. \<not> keep_visit L cutoff v) visits;
                    patient_data' = AList.update ''visit_history'' (PList visits_to_keep) patient_data;
                    n = archived_count + length visits_to_archive
                in if visits_to_archive = []
                   then (case archive_loop L cutoff rest archived n of
                           (e, rest', archived', n') \<Rightarrow>
                             (e, (patient_id, patient_data') # rest', archived', n'))
                   else (case extend_archive archived patient_id visits_to_archive of
                           Inl e \<Rightarrow>
                             (Some e, (patient_id, patient_data') # rest, archived, n)
                         | Inr archived1 \<Rightarrow>
                             (case archive_loop L cutoff rest (Some archived1) n of
                                (e, rest', archived', n') \<Rightarrow>
                                  (e, (patient_id, patient_data') # rest', archived', n'))))))"

text \<open>
  \<^verbatim>\<open>archive_old_visits(days)\<close>; the result is the count in the message
  \<^verbatim>\<open>"Archived {archived_count} visits"\<close>.
\<close>

definition archive_old_visits :: "pylib \<Rightarrow> int \<Rightarrow> int \<Rightarrow> config \<Rightarrow> (failure + nat) \<times> config" where
  "archive_old_visits L now days cfg =
     (case timedelta day_us (VInt days) of
        Inl e \<Rightarrow> (Inl (Error e), cfg)
      | Inr delta \<Rightarrow>
          (case dt_add (Naive now) (- delta) of
             Inl e \<Rightarrow> (Inl (Error e), cfg)
           | Inr cutoff_date \<Rightarrow>
               (case archive_loop L cutoff_date (cfg_patients cfg) (archived_visits cfg) 0 of
                  (None, ps, archived, n) \<Rightarrow>
                    (Inr n, \<lparr>cfg_patients = ps, archived_visits = archived\<rparr>)
                | (Some e, ps, archived, n) \<Rightarrow>
                    (Inl (Error e), \<lparr>cfg_patients = ps, archived_visits = archived\<rparr>))))"

section \<open>Test results (models/test\_results\_manager.py)\<close>

type_synonym test_results = "(atom \<times> (atom \<times> pydict) list) list"

text \<open>
  \<^verbatim>\<open>list.sort(key=f)\<close>. The keys are compared with \<^verbatim>\<open><\<close>, which Python defines
  between two strings, two numbers, two naive or two aware datetimes and for no other
  pair of atoms. A list of fewer than two elements needs no comparison; in a longer
  list every element takes part in one, so keys of two kinds, or \<^verbatim>\<open>None\<close> as a key,
  raise \<^verbatim>\<open>TypeError\<close>. The sort is stable. With \<^verbatim>\<open>reverse=True\<close> Python reverses
  the list, sorts it and reverses it again.
\<close>

datatype key_kind = KStr | KNum | KNaive | KAware | KNone

fun kind_of :: "atom \<Rightarrow> key_kind" where
  "kind_of VNone = KNone"
| "kind_of (VBool b) = KNum"
| "kind_of (VInt n) = KNum"
| "kind_of (VStr s) = KStr"
| "kind_of (VDateTime (Naive t)) = KNaive"
| "kind_of (VDateTime (Aware t off)) = KAware"

fun str_key :: "atom \<Rightarrow> string" where
  "str_key (VStr s) = s"
| "str_key a = []"

fun num_key :: "atom \<Rightarrow> int" where
  "num_key (VInt n) = n"
| "num_key (VBool b) = (if b then 1 else 0)"
| "num_key (VDateTime (Naive t)) = t"
| "num_key (VDateTime (Aware t off)) = t - off"
| "num_key a = 0"

definition py_sort :: "('a \<Rightarrow> atom) \<Rightarrow> 'a list \<Rightarrow> pyexn + 'a list" where
  "py_sort f xs =
     (if length xs \<le> 1 then Inr xs
      else if \<forall>x \<in> set xs. kind_of (f x) = KStr then Inr (sort_key (\<lambda>x. str_key (f x)) xs)
      else if (\<forall>x \<in> set xs. kind_of (f x) = KNum) \<or>
              (\<forall>x \<in> set xs. kind_of (f x) = KNaive) \<or>
              (\<forall>x \<in> set xs. kind_of (f x) = KAware)
        then Inr (sort_key (\<lambda>x. num_key (f x)) xs)
      else Inl TypeError)"

definition py_sort_reverse :: "('a \<Rightarrow> atom) \<Rightarrow> 'a list \<Rightarrow> pyexn + 'a list" where
  "py_sort_reverse f xs =
     (case py_sort f (rev xs) of Inl e \<Rightarrow> Inl e | Inr ys \<Rightarrow> Inr (rev ys))"

text \<open>\<^verbatim>\<open>get_patient_test_results(patient_id)\<close>: newest test date first.\<close>

definition get_patient_test_results :: "test_results \<Rightarrow> atom \<Rightarrow> pyexn + pydict list" where
  "get_patient_test_results test_results patient_id =
     (case dict_get test_results patient_id of
        None \<Rightarrow> Inr []
      | Some rs \<Rightarrow>
          py_sort_reverse (\<lambda>x. py_get x ''test_date'' (VStr ''''))
            (map (\<lambda>(result_id, result_data). AList.update ''id'' result_id result_data) rs))"

text \<open>\<^verbatim>\<open>get_test_results_by_type(patient_id, test_type)\<close>.\<close>

definition get_test_results_by_type :: "test_results \<Rightarrow> atom \<Rightarrow> atom \<Rightarrow> pyexn + pydict list" where
  "get_test_results_by_type test_results patient_id test_type =
     (case get_patient_test_results test_results patient_id of
        Inl e \<Rightarrow> Inl e
      | Inr all_results \<Rightarrow>
          Inr (filter (\<lambda>result. py_eq (py_get result ''test_name'' VNone) test_type) all_results))"

text \<open>
  A data point of the trend chart. \<^verbatim>\<open>float(value)\<close> is a parameter of the model,
  \<open>float_of :: atom \<Rightarrow> 'f option\<close> with \<open>None\<close> for any exception, and \<open>'f\<close> stands
  for the floating-point numbers.
\<close>

record 'f point =
  pt_date :: pydt
  pt_value :: 'f
  pt_unit :: atom
  pt_reference_range :: atom
  pt_id :: atom

text \<open>The body of the loop of \<^verbatim>\<open>get_numerical_test_results\<close> (lines 216-240).\<close>

definition numerical_point :: "pylib \<Rightarrow> (atom \<Rightarrow> 'f option) \<Rightarrow> pydict \<Rightarrow> 'f point option" where
  "numerical_point L float_of result =
     (let v = py_get result ''value'' VNone
      in if v = VNone then None
         else (case float_of v of
                 None \<Rightarrow> None
               | Some numerical_value \<Rightarrow>
                   (let test_date = py_get result ''test_date'' (VStr '''')
                    in if \<not> py_truthy test_date then None
                       else (case py_fromisoformat L test_date of
                               Inl e \<Rightarrow> None
                             | Inr date_obj \<Rightarrow>
                                 Some \<lparr>pt_date = date_obj, pt_value = numerical_value,
                                       pt_unit = py_get result ''unit'' (VStr ''''),
                                       pt_reference_range = py_get result ''reference_range'' (VStr ''''),
                                       pt_id = py_get result ''id'' (VStr '''')\<rparr>))))"

text \<open>\<^verbatim>\<open>get_numerical_test_results(patient_id, test_type)\<close>: oldest date first.\<close>

definition get_numerical_test_results ::
  "pylib \<Rightarrow> (atom \<Rightarrow> 'f option) \<Rightarrow> test_results \<Rightarrow> atom \<Rightarrow> atom \<Rightarrow> pyexn + 'f point list" where
  "get_numerical_test_results L float_of test_results patient_id test_type =
     (case get_test_results_by_type test_results patient_id test_type of
        Inl e \<Rightarrow> Inl e
      | Inr rs \<Rightarrow>
          py_sort (\<lambda>p. VDateTime (pt_date p)) (List.map_filter (numerical_point L float_of) rs))"

section \<open>An executable instance of the library\<close>

text \<open>
  To run the model on concrete inputs, the library functions are instantiated with
  parsers for the formats \<^verbatim>\<open>YYYY-MM-DD\<close>, \<^verbatim>\<open>YYYY-MM-DDTHH:MM\<close> and
  \<^verbatim>\<open>YYYY-MM-DDTHH:MM:SS\<close>, the last two with an optional UTC offset \<^verbatim>\<open>+HH:MM\<close> or
  \<^verbatim>\<open>-HH:MM\<close> (strings that every version of \<^verbatim>\<open>fromisoformat\<close> accepts, with the
  results computed here), for \<^verbatim>\<open>YYYY-MM-DD HH:MM:SS\<close>, and with the printer of
  \<^verbatim>\<open>isoformat\<close>. All other strings are rejected.
\<close>

definition digit_of :: "char \<Rightarrow> int option" where
  "digit_of c =
     (let n = (of_char c :: nat) in if 48 \<le> n \<and> n \<le> 57 then Some (int n - 48) else None)"

fun number_acc :: "int \<Rightarrow> string \<Rightarrow> int option" where
  "number_acc acc [] = Some acc"
| "number_acc acc (c # cs) =
     (case digit_of c of None \<Rightarrow> None | Some d \<Rightarrow> number_acc (10 * acc + d) cs)"

definition number :: "string \<Rightarrow> int option" where
  "number s = (if s = [] then None else number_acc 0 s)"

definition is_leap :: "int \<Rightarrow> bool" where
  "is_leap y \<longleftrightarrow> y mod 4 = 0 \<and> (y mod 100 \<noteq> 0 \<or> y mod 400 = 0)"

definition days_in_month :: "int \<Rightarrow> int \<Rightarrow> int" where
  "days_in_month y m =
     (if m = 2 then (if is_leap y then 29 else 28)
      else if m = 4 \<or> m = 6 \<or> m = 9 \<or> m = 11 then 30 else 31)"

definition days_before_year :: "int \<Rightarrow> int" where
  "days_before_year y = (y - 1) * 365 + (y - 1) div 4 - (y - 1) div 100 + (y - 1) div 400"

definition days_before_month :: "int \<Rightarrow> int \<Rightarrow> int" where
  "days_before_month y m =
     [0, 31, 59, 90, 120, 151, 181, 212, 243, 273, 304, 334] ! nat (m - 1) +
     (if 2 < m \<and> is_leap y then 1 else 0)"

text \<open>Days from 0001-01-01 to the given date, when it is a date of the calendar.\<close>

definition ymd_days :: "int \<Rightarrow> int \<Rightarrow> int \<Rightarrow> int option" where
  "ymd_days y m d =
     (if 1 \<le> y \<and> y \<le> 9999 \<and> 1 \<le> m \<and> m \<le> 12 \<and> 1 \<le> d \<and> d \<le> days_in_month y m
      then Some (days_before_year y + days_before_month y m + d - 1) else None)"

definition parse_date :: "string \<Rightarrow> int option" where
  "parse_date s =
     (if length s = 10 \<and> s ! 4 = CHR ''-'' \<and> s ! 7 = CHR ''-''
      then (case (number (take 4 s), number (take 2 (drop 5 s)), number (drop 8 s)) of
              (Some y, Some m, Some d) \<Rightarrow> map_option (\<lambda>n. n * day_us) (ymd_days y m d)
            | other \<Rightarrow> None)
      else None)"

definition hms_us :: "int \<Rightarrow> int \<Rightarrow> int \<Rightarrow> int option" where
  "hms_us h m s =
     (if 0 \<le> h \<and> h < 24 \<and> 0 \<le> m \<and> m < 60 \<and> 0 \<le> s \<and> s < 60
      then Some (((h * 60 + m) * 60 + s) * 1000000) else None)"

definition parse_time :: "string \<Rightarrow> int option" where
  "parse_time s =
     (if length s = 5 \<and> s ! 2 = CHR '':''
      then (case (number (take 2 s), number (drop 3 s)) of
              (Some h, Some m) \<Rightarrow> hms_us h m 0
            | other \<Rightarrow> None)
      else if length s = 8 \<and> s ! 2 = CHR '':'' \<and> s ! 5 = CHR '':''
      then (case (number (take 2 s), number (take 2 (drop 3 s)), number (drop 6 s)) of
              (Some h, Some m, Some sec) \<Rightarrow> hms_us h m sec
            | other \<Rightarrow> None)
      else None)"

definition parse_offset :: "string \<Rightarrow> int option" where
  "parse_offset s =
     (if length s = 6 \<and> (s ! 0 = CHR ''+'' \<or> s ! 0 = CHR ''-'')
      then map_option (\<lambda>n. if s ! 0 = CHR ''-'' then - n else n) (parse_time (drop 1 s))
      else None)"

definition iso_parse :: "string \<Rightarrow> pydt option" where
  "iso_parse s =
     (if length s = 10 then map_option Naive (parse_date s)
      else if 10 < length s \<and> s ! 10 = CHR ''T''
      then (case parse_date (take 10 s) of
              None \<Rightarrow> None
            | Some d \<Rightarrow>
                (let r = drop 11 s
                 in if length r = 5 \<or> length r = 8
                    then map_option (\<lambda>t. Naive (d + t)) (parse_time r)
                    else if length r = 11 \<or> length r = 14
                    then (case (parse_time (take (length r - 6) r),
                                parse_offset (drop (length r - 6) r)) of
                            (Some t, Some off) \<Rightarrow> Some (Aware (d + t) off)
                          | other \<Rightarrow> None)
                    else None))
      else None)"

definition ymdhms_parse :: "string \<Rightarrow> int option" where
  "ymdhms_parse s =
     (if length s = 19 \<and> s ! 10 = CHR '' ''
      then (case (parse_date (take 10 s), parse_time (drop 11 s)) of
              (Some d, Some t) \<Rightarrow> Some (d + t)
            | other \<Rightarrow> None)
      else None)"

text \<open>The printer: \<open>pad w n\<close> writes \<open>n\<close> with \<open>w\<close> digits.\<close>

fun pad :: "nat \<Rightarrow> int \<Rightarrow> string" where
  "pad 0 n = []"
| "pad (Suc w) n = pad w (n div 10) @ [char_of (48 + nat (n mod 10))]"

definition year_of_days :: "int \<Rightarrow> int" where
  "year_of_days n =
     (let n400 = n div 146097; r400 = n mod 146097;
          n100 = r400 div 36524; r100 = r400 mod 36524;
          n4 = r100 div 1461; r4 = r100 mod 1461;
          n1 = r4 div 365;
          year = n400 * 400 + n100 * 100 + n4 * 4 + n1 + 1
      in if n1 = 4 \<or> n100 = 4 then year - 1 else year)"

definition date_string :: "int \<Rightarrow> string" where
  "date_string n =
     (let y = year_of_days n;
          r = n - days_before_year y;
          m = last (filter (\<lambda>m. days_before_month y m \<le> r) [1, 2, 3, 4, 5, 6, 7, 8, 9, 10, 11, 12]);
          d = r - days_before_month y m + 1
      in pad 4 y @ ''-'' @ pad 2 m @ ''-'' @ pad 2 d)"

definition time_string :: "int \<Rightarrow> string" where
  "time_string t =
     (let s = t div 1000000; us = t mod 1000000
      in pad 2 (s div 3600) @ '':'' @ pad 2 (s mod 3600 div 60) @ '':'' @ pad 2 (s mod 60) @
         (if us = 0 then [] else ''.'' @ pad 6 us))"

definition offset_string :: "int \<Rightarrow> string" where
  "offset_string off =
     (let a = \<bar>off\<bar> div 1000000
      in (if off < 0 then ''-'' else ''+'') @ pad 2 (a div 3600) @ '':'' @ pad 2 (a mod 3600 div 60) @
         (if a mod 60 = 0 then [] else '':'' @ pad 2 (a mod 60)))"

fun iso_format :: "pydt \<Rightarrow> string" where
  "iso_format (Naive t) = date_string (t div day_us) @ ''T'' @ time_string (t mod day_us)"
| "iso_format (Aware t off) =
     date_string (t div day_us) @ ''T'' @ time_string (t mod day_us) @ offset_string off"

definition std_lib :: pylib where
  "std_lib = \<lparr>fromisoformat = iso_parse, strptime = ymdhms_parse, isoformat = iso_format\<rparr>"

text \<open>
  \<^verbatim>\<open>float(v)\<close> on integers, booleans and strings of decimal digits, the number being
  written as an integer; every other atom is rejected.
\<close>

fun digits_float :: "atom \<Rightarrow> int option" where
  "digits_float (VInt n) = Some n"
| "digits_float (VBool b) = Some (if b then 1 else 0)"
| "digits_float (VStr s) = number s"
| "digits_float a = None"

section \<open>The scheduling rule as the specification words it\<close>

text \<open>
  Two appointments of the same doctor are double booked when both intervals
  \<open>[start, start + duration)\<close> can be computed and \<open>a_start < b_end\<close> and
  \<open>a_end > b_start\<close>; the status of neither appointment matters. A request conflicts
  with the store when it is double booked with some stored appointment.
\<close>

definition double_booked :: "pylib \<Rightarrow> pydict \<Rightarrow> pydict \<Rightarrow> bool" where
  "double_booked L a b \<longleftrightarrow>
     py_eq (py_get a ''doctor'' VNone) (py_get b ''doctor'' VNone) \<and>
     (case (appt_interval L a, appt_interval L b) of
        (Inr x, Inr y) \<Rightarrow> dt_less (fst x) (snd y) = Inr True \<and> dt_less (fst y) (snd x) = Inr True
      | other \<Rightarrow> False)"

definition spec_conflict :: "pylib \<Rightarrow> appointments \<Rightarrow> pydict \<Rightarrow> bool" where
  "spec_conflict L appointments request \<longleftrightarrow>
     list_ex (\<lambda>(appt_id, appt_data). double_booked L appt_data request) appointments"

section \<open>The archiving rule as the specification words it\<close>

text \<open>
  The end time of a visit as a timestamp: a string is read with \<^verbatim>\<open>fromisoformat\<close> or,
  failing that, with the alternate format; a \<^verbatim>\<open>datetime\<close> object is taken as it is.
  A visit that is no record, or whose end time is any other value, has none.
\<close>

definition end_time_value :: "pylib \<Rightarrow> pyval \<Rightarrow> pydt option" where
  "end_time_value L visit =
     (case visit of
        PDict d \<Rightarrow>
          (case py_get d ''end_time'' (Atom VNone) of
             Atom (VStr s) \<Rightarrow>
               (case fromisoformat L s of
                  Some t \<Rightarrow> Some t
                | None \<Rightarrow> map_option Naive (strptime L s))
           | Atom (VDateTime t) \<Rightarrow> Some t
           | other \<Rightarrow> None)
      | other \<Rightarrow> None)"

text \<open>The end time is missing: absent, \<^verbatim>\<open>None\<close> or empty.\<close>

definition end_time_missing :: "pyval \<Rightarrow> bool" where
  "end_time_missing visit =
     (case visit of
        PDict d \<Rightarrow> \<not> val_truthy (py_get d ''end_time'' (Atom VNone))
      | other \<Rightarrow> True)"

text \<open>
  The rule as stated: a visit is kept when its end time is missing, unparsable, or
  newer than the cutoff; every other visit is archived.
\<close>

definition stated_keep :: "pylib \<Rightarrow> pydt \<Rightarrow> pyval \<Rightarrow> bool" where
  "stated_keep L cutoff visit \<longleftrightarrow>
     end_time_missing visit \<or>
     (case end_time_value L visit of
        None \<Rightarrow> True
      | Some t \<Rightarrow> dt_less cutoff t = Inr True)"

text \<open>
  The rule as the code has it: a visit is also kept when its end time cannot be
  compared with the cutoff, which is a naive local time (a timezone-aware end time).
\<close>

definition spec_keep :: "pylib \<Rightarrow> pydt \<Rightarrow> pyval \<Rightarrow> bool" where
  "spec_keep L cutoff visit \<longleftrightarrow>
     end_time_missing visit \<or>
     (case end_time_value L visit of
        None \<Rightarrow> True
      | Some t \<Rightarrow> dt_less cutoff t = Inr True \<or> dt_less cutoff t = Inl TypeError)"

text \<open>
  The visits of a patient record (none without a \<^verbatim>\<open>visit_history\<close>), the record with
  another list of visits, and the archive bucket of a patient identifier.
\<close>

definition history :: "pyobj \<Rightarrow> pyval list" where
  "history patient_data =
     (case map_of patient_data ''visit_history'' of
        None \<Rightarrow> []
      | Some vh \<Rightarrow> (case py_iter vh of Inl e \<Rightarrow> [] | Inr visits \<Rightarrow> visits))"

definition with_history :: "pyobj \<Rightarrow> pyval list \<Rightarrow> pyobj" where
  "with_history patient_data visits =
     (case map_of patient_data ''visit_history'' of
        None \<Rightarrow> patient_data
      | Some vh \<Rightarrow> AList.update ''visit_history'' (PList visits) patient_data)"

definition bucket :: "(atom \<times> pyval) list option \<Rightarrow> atom \<Rightarrow> pyval option" where
  "bucket archived patient_id =
     dict_get (case archived of None \<Rightarrow> [] | Some a \<Rightarrow> a) patient_id"

text \<open>
  No visit crosses the cutoff: every visit still in a visit history is one that the
  rule keeps at that cutoff.
\<close>

definition no_visit_crosses :: "pylib \<Rightarrow> pydt \<Rightarrow> config \<Rightarrow> bool" where
  "no_visit_crosses L cutoff cfg \<longleftrightarrow>
     (\<forall>(pid, pd) \<in> set (cfg_patients cfg). \<forall>v \<in> set (history pd). spec_keep L cutoff v)"

text \<open>
  The configuration is well typed when every visit history can be iterated and every
  archive bucket is a list, as in every document that the application itself has
  written.
\<close>

definition archive_typed :: "(atom \<times> pyval) list option \<Rightarrow> bool" where
  "archive_typed archived \<longleftrightarrow>
     (\<forall>(k, b) \<in> set (case archived of None \<Rightarrow> [] | Some a \<Rightarrow> a).
        case b of PList xs \<Rightarrow> True | other \<Rightarrow> False)"

definition cfg_typed :: "config \<Rightarrow> bool" where
  "cfg_typed cfg \<longleftrightarrow>
     (\<forall>(pid, pd) \<in> set (cfg_patients cfg).
        case map_of pd ''visit_history'' of
          None \<Rightarrow> True
        | Some vh \<Rightarrow> (case py_iter vh of Inl e \<Rightarrow> False | Inr visits \<Rightarrow> True)) \<and>
     archive_typed (archived_visits cfg)"

section \<open>Example data\<close>

text \<open>
  The clock reading 2025-01-10T09:00:00, and the appointments of the scenarios: two
  half-hour appointments of Dr. Smith that follow each other, and requests without a
  doctor, with a string as duration, and well formed.
\<close>

definition jan10_0900 :: int where
  "jan10_0900 = 63872096400000000"

definition smith_0900 :: pydict where
  "smith_0900 = [(''patient_id'', VStr ''P0001''), (''datetime'', VStr ''2025-01-10T09:00''),
                 (''duration'', VInt 30), (''doctor'', VStr ''Dr. Smith''),
                 (''status'', VStr ''scheduled'')]"

definition smith_0930 :: pydict where
  "smith_0930 = [(''patient_id'', VStr ''P0002''), (''datetime'', VStr ''2025-01-10T09:30''),
                 (''duration'', VInt 30), (''doctor'', VStr ''Dr. Smith''),
                 (''status'', VStr ''scheduled'')]"

definition smith_0915 :: pydict where
  "smith_0915 = [(''patient_id'', VStr ''P0003''), (''datetime'', VStr ''2025-01-10T09:15''),
                 (''doctor'', VStr ''Dr. Smith'')]"

definition jones_0915 :: pydict where
  "jones_0915 = [(''patient_id'', VStr ''P0003''), (''datetime'', VStr ''2025-01-10T09:15''),
                 (''doctor'', VStr ''Dr. Jones'')]"

definition request_no_doctor :: pydict where
  "request_no_doctor = [(''patient_id'', VStr ''P0001''), (''datetime'', VStr ''2025-01-10T09:00'')]"

definition request_text_duration :: pydict where
  "request_text_duration =
     [(''patient_id'', VStr ''P0001''), (''datetime'', VStr ''2025-01-10T09:00''),
      (''duration'', VStr ''30''), (''doctor'', VStr ''Dr. Smith'')]"

text \<open>
  A clinic with one patient and no active visit, the data of a visit, and the notes the
  end-of-visit dialog hands over.
\<close>

definition patient_ann :: pyobj where
  "patient_ann = [(''name'', Atom (VStr ''Ann Lee'')),
                  (''created_on'', Atom (VStr ''2024-12-01T08:00:00'')),
                  (''medical_history'', PList []),
                  (''visit_history'', PList [])]"

definition clinic :: pm_state where
  "clinic = \<lparr>patients = [(VStr ''P0001'', patient_ann)], active_visits = []\<rparr>"

definition visit_request :: pydict where
  "visit_request = [(''doctor'', VStr ''Dr. Smith''), (''reason'', VStr ''Check-up'')]"

definition visit_started :: pydict where
  "visit_started = [(''doctor'', VStr ''Dr. Smith''), (''reason'', VStr ''Check-up''),
                    (''start_time'', VDateTime (Naive jan10_0900)), (''notes'', VStr ''''),
                    (''status'', VStr ''active'')]"

definition clinic_visiting :: pm_state where
  "clinic_visiting =
     \<lparr>patients = [(VStr ''P0001'', patient_ann)],
      active_visits = [(VStr ''P0001'', visit_started)]\<rparr>"

definition dialog_notes :: pydict where
  "dialog_notes = [(''notes'', VStr ''rest''), (''diagnosis'', VStr ''flu''),
                   (''treatment'', VStr ''fluids''), (''follow_up'', VStr '''')]"

definition visit_finished :: pydict where
  "visit_finished = [(''doctor'', VStr ''Dr. Smith''), (''reason'', VStr ''Check-up''),
                     (''start_time'', VStr ''2025-01-10T09:00:00''), (''notes'', VStr ''rest''),
                     (''status'', VStr ''completed''), (''end_time'', VStr ''2025-01-10T09:30:00''),
                     (''diagnosis'', VStr ''flu''), (''treatment'', VStr ''fluids''),
                     (''follow_up'', VStr '''')]"

definition patient_ann_visited :: pyobj where
  "patient_ann_visited =
     [(''name'', Atom (VStr ''Ann Lee'')),
      (''created_on'', Atom (VStr ''2024-12-01T08:00:00'')),
      (''medical_history'',
       PList [PDict [(''date'', Atom (VStr ''2025-01-10T09:30:00'')),
                     (''type'', Atom (VStr ''diagnosis'')),
                     (''condition'', Atom (VStr ''flu'')),
                     (''notes'', Atom (VStr ''rest'')),
                     (''treatment'', Atom (VStr ''fluids''))]]),
      (''visit_history'',
       PList [PDict [(''doctor'', Atom (VStr ''Dr. Smith'')), (''reason'', Atom (VStr ''Check-up'')),
                     (''start_time'', Atom (VStr ''2025-01-10T09:00:00'')),
                     (''notes'', Atom (VStr ''rest'')), (''status'', Atom (VStr ''completed'')),
                     (''end_time'', Atom (VStr ''2025-01-10T09:30:00'')),
                     (''diagnosis'', Atom (VStr ''flu'')), (''treatment'', Atom (VStr ''fluids'')),
                     (''follow_up'', Atom (VStr ''''))]])]"

definition clinic_visited :: pm_state where
  "clinic_visited = \<lparr>patients = [(VStr ''P0001'', patient_ann_visited)], active_visits = []\<rparr>"

text \<open>
  The same visit ended with the diagnosis field of the dialog left empty: the dialog
  always sends the key.
\<close>

definition dialog_notes_no_diagnosis :: pydict where
  "dialog_notes_no_diagnosis = [(''notes'', VStr ''rest''), (''diagnosis'', VStr ''''),
                                (''treatment'', VStr ''''), (''follow_up'', VStr '''')]"

definition patient_ann_undiagnosed :: pyobj where
  "patient_ann_undiagnosed =
     [(''name'', Atom (VStr ''Ann Lee'')),
      (''created_on'', Atom (VStr ''2024-12-01T08:00:00'')),
      (''medical_history'', PList []),
      (''visit_history'',
       PList [PDict [(''doctor'', Atom (VStr ''Dr. Smith'')), (''reason'', Atom (VStr ''Check-up'')),
                     (''start_time'', Atom (VStr ''2025-01-10T09:00:00'')),
                     (''notes'', Atom (VStr ''rest'')), (''status'', Atom (VStr ''completed'')),
                     (''end_time'', Atom (VStr ''2025-01-10T09:30:00'')),
                     (''diagnosis'', Atom (VStr '''')), (''treatment'', Atom (VStr '''')),
                     (''follow_up'', Atom (VStr ''''))]])]"

definition clinic_undiagnosed :: pm_state where
  "clinic_undiagnosed = \<lparr>patients = [(VStr ''P0001'', patient_ann_undiagnosed)], active_visits = []\<rparr>"

definition visit_finished_undiagnosed :: pydict where
  "visit_finished_undiagnosed =
     [(''doctor'', VStr ''Dr. Smith''), (''reason'', VStr ''Check-up''),
      (''start_time'', VStr ''2025-01-10T09:00:00''), (''notes'', VStr ''rest''),
      (''status'', VStr ''completed''), (''end_time'', VStr ''2025-01-10T09:30:00''),
      (''diagnosis'', VStr ''''), (''treatment'', VStr ''''), (''follow_up'', VStr '''')]"

text \<open>An update payload that carries the three protected keys.\<close>

definition wiping_payload :: pyobj where
  "wiping_payload = [(''name'', Atom (VStr ''Ann Li'')), (''medical_history'', PList []),
                     (''visit_history'', Atom VNone), (''created_on'', Atom (VStr ''today''))]"

text \<open>
  At 2025-01-10T09:00 a visit that ended on 2024-10-02 is 100 days old and one that
  ended on 2024-12-31 is 10 days old; the third visit ended five years ago and carries
  a UTC offset.
\<close>

definition visit_100_days :: pyval where
  "visit_100_days = PDict [(''doctor'', Atom (VStr ''Dr. Smith'')),
                           (''status'', Atom (VStr ''completed'')),
                           (''end_time'', Atom (VStr ''2024-10-02T09:00:00''))]"

definition visit_10_days :: pyval where
  "visit_10_days = PDict [(''doctor'', Atom (VStr ''Dr. Jones'')),
                          (''status'', Atom (VStr ''completed'')),
                          (''end_time'', Atom (VStr ''2024-12-31T09:00:00''))]"

definition visit_with_offset :: pyval where
  "visit_with_offset = PDict [(''doctor'', Atom (VStr ''Dr. Smith'')),
                              (''status'', Atom (VStr ''completed'')),
                              (''end_time'', Atom (VStr ''2020-01-01T10:00:00+00:00''))]"

definition cfg_two_visits :: config where
  "cfg_two_visits =
     \<lparr>cfg_patients = [(VStr ''P0001'', [(''name'', Atom (VStr ''Ann Lee'')),
                                        (''visit_history'', PList [visit_100_days, visit_10_days])])],
      archived_visits = Some []\<rparr>"

definition cfg_two_visits_archived :: config where
  "cfg_two_visits_archived =
     \<lparr>cfg_patients = [(VStr ''P0001'', [(''name'', Atom (VStr ''Ann Lee'')),
                                        (''visit_history'', PList [visit_10_days])])],
      archived_visits = Some [(VStr ''P0001'', PList [visit_100_days])]\<rparr>"

definition cfg_offset_visit :: config where
  "cfg_offset_visit =
     \<lparr>cfg_patients = [(VStr ''P0001'', [(''name'', Atom (VStr ''Ann Lee'')),
                                        (''visit_history'', PList [visit_with_offset])])],
      archived_visits = Some []\<rparr>"

text \<open>
  Two patients with one old visit each, and an archive in which the bucket of the first
  patient is \<^verbatim>\<open>None\<close>; the configuration after a first and after a second run.
\<close>

definition cfg_none_bucket :: config where
  "cfg_none_bucket =
     \<lparr>cfg_patients = [(VStr ''P0001'', [(''name'', Atom (VStr ''Ann Lee'')),
                                        (''visit_history'', PList [visit_100_days])]),
                      (VStr ''P0002'', [(''name'', Atom (VStr ''Bob Ray'')),
                                        (''visit_history'', PList [visit_100_days])])],
      archived_visits = Some [(VStr ''P0001'', Atom VNone)]\<rparr>"

definition cfg_none_bucket_failed :: config where
  "cfg_none_bucket_failed =
     \<lparr>cfg_patients = [(VStr ''P0001'', [(''name'', Atom (VStr ''Ann Lee'')),
                                        (''visit_history'', PList [])]),
                      (VStr ''P0002'', [(''name'', Atom (VStr ''Bob Ray'')),
                                        (''visit_history'', PList [visit_100_days])])],
      archived_visits = Some [(VStr ''P0001'', Atom VNone)]\<rparr>"

definition cfg_none_bucket_rerun :: config where
  "cfg_none_bucket_rerun =
     \<lparr>cfg_patients = [(VStr ''P0001'', [(''name'', Atom (VStr ''Ann Lee'')),
                                        (''visit_history'', PList [])]),
                      (VStr ''P0002'', [(''name'', Atom (VStr ''Bob Ray'')),
                                        (''visit_history'', PList [])])],
      archived_visits = Some [(VStr ''P0001'', Atom VNone),
                              (VStr ''P0002'', PList [visit_100_days])]\<rparr>"

text \<open>
  Test results of one patient: two glucose values, one of them pending, and one
  glucose value whose test date carries a UTC offset.
\<close>

definition glucose_142 :: pydict where
  "glucose_142 = [(''test_name'', VStr ''Glucose''), (''test_date'', VStr ''2025-01-03''),
                  (''value'', VStr ''142''), (''unit'', VStr ''mg/dL'')]"

definition glucose_pending :: pydict where
  "glucose_pending = [(''test_name'', VStr ''Glucose''), (''test_date'', VStr ''2025-01-05''),
                      (''value'', VStr ''pending''), (''unit'', VStr ''mg/dL'')]"

definition glucose_118 :: pydict where
  "glucose_118 = [(''test_name'', VStr ''Glucose''), (''test_date'', VStr ''2025-01-01''),
                  (''value'', VStr ''118''), (''unit'', VStr ''mg/dL'')]"

definition glucose_offset :: pydict where
  "glucose_offset = [(''test_name'', VStr ''Glucose''),
                     (''test_date'', VStr ''2025-01-02T08:00:00+00:00''),
                     (''value'', VStr ''150''), (''unit'', VStr ''mg/dL'')]"

definition lab_results :: test_results where
  "lab_results = [(VStr ''P0001'', [(VStr ''r1'', glucose_142), (VStr ''r2'', glucose_pending),
                                   (VStr ''r3'', glucose_118)])]"

definition lab_results_offset :: test_results where
  "lab_results_offset = [(VStr ''P0001'', [(VStr ''r1'', glucose_142), (VStr ''r2'', glucose_offset)])]"

section \<open>Properties of the appointment manager\<close>

lemma py_eq_refl [simp]: "py_eq a a"
  by (simp add: py_eq_def)

lemma py_eq_sym: "py_eq a b \<longleftrightarrow> py_eq b a"
  by (auto simp: py_eq_def)

lemma py_eq_trans: "py_eq a b \<Longrightarrow> py_eq b c \<Longrightarrow> py_eq a c"
  by (simp add: py_eq_def)

lemma py_eq_left: "py_eq a b \<Longrightarrow> py_eq a c \<longleftrightarrow> py_eq b c"
  by (auto simp: py_eq_def)

lemma py_get_update:
  "py_get (AList.update k v d) k' dflt = (if k' = k then v else py_get d k' dflt)"
  by (simp add: py_get_def update_conv')

lemma py_get_truthy_default:
  "py_truthy (py_get d k (VStr '''')) \<Longrightarrow> py_get d k VNone = py_get d k (VStr '''')"
  by (auto simp: py_get_def split: option.splits)

lemma py_get_truthy_default':
  "py_truthy (py_get d k VNone) \<Longrightarrow> py_get d k (VStr '''') = py_get d k VNone"
  by (auto simp: py_get_def split: option.splits)

lemma dict_get_dict_set_same: "dict_get (dict_set d k v) k = Some v"
  by (induction d) (auto simp: py_eq_def)

lemma dict_get_dict_set:
  "dict_get (dict_set d k v) k' = (if py_eq k k' then Some v else dict_get d k')"
  by (induction d) (auto simp: py_eq_def)

lemma dict_get_cong: "py_eq k k' \<Longrightarrow> dict_get d k = dict_get d k'"
  by (induction d) (auto simp: py_eq_def)

lemma check_available_doctor:
  assumes "check_appointment_available L appointments data ex"
  shows "py_truthy (py_get data ''doctor'' (VStr ''''))"
  using assms by (auto simp: check_appointment_available_def Let_def split: if_splits)

lemma check_available_datetime:
  assumes "check_appointment_available L appointments data ex"
  shows "\<exists>d. py_fromisoformat L (py_get data ''datetime'' (VStr '''')) = Inr d"
  using assms
  by (auto simp: check_appointment_available_def appt_interval_def Let_def
           split: if_splits sum.splits)

lemma overlaps_True:
  "overlaps r e = Inr True \<longleftrightarrow>
   dt_less (fst r) (snd e) = Inr True \<and> dt_less (fst e) (snd r) = Inr True"
  by (auto simp: overlaps_def split: sum.splits bool.splits)

text \<open>
  Without an excluded identifier the loop answers \<open>False\<close> exactly when some stored
  appointment of the doctor has a computable interval that overlaps the request.
\<close>

lemma no_conflict_iff:
  "no_conflict L doctor r VNone appts \<longleftrightarrow>
   \<not> list_ex (\<lambda>(k, a). py_eq (py_get a ''doctor'' VNone) doctor \<and>
        (\<exists>e. appt_interval L a = Inr e \<and> overlaps r e = Inr True)) appts"
  by (induction appts) (auto split: sum.splits bool.splits if_splits)

text \<open>
  With an excluded identifier the loop skips the appointment of that identifier, when
  the identifier is truthy.
\<close>

lemma no_conflict_excluding_iff:
  "no_conflict L doctor r ex appts \<longleftrightarrow>
   \<not> list_ex (\<lambda>(k, a). \<not> (py_truthy ex \<and> py_eq k ex) \<and>
        py_eq (py_get a ''doctor'' VNone) doctor \<and>
        (\<exists>e. appt_interval L a = Inr e \<and> overlaps r e = Inr True)) appts"
  by (induction appts) (auto split: sum.splits bool.splits if_splits)

lemma check_available_iff:
  assumes "py_truthy (py_get data ''datetime'' (VStr ''''))"
      and "py_truthy (py_get data ''doctor'' (VStr ''''))"
      and "appt_interval L data = Inr r"
  shows "check_appointment_available L appts data VNone \<longleftrightarrow> \<not> spec_conflict L appts data"
proof -
  have d: "py_get data ''doctor'' VNone = py_get data ''doctor'' (VStr '''')"
    using assms(2) by (rule py_get_truthy_default)
  have "list_ex (\<lambda>(k, a). py_eq (py_get a ''doctor'' VNone) (py_get data ''doctor'' (VStr '''')) \<and>
        (\<exists>e. appt_interval L a = Inr e \<and> overlaps r e = Inr True)) appts
        = spec_conflict L appts data"
    unfolding spec_conflict_def double_booked_def d
    by (rule arg_cong[where f="\<lambda>P. list_ex P appts"])
       (auto simp: fun_eq_iff assms(3) overlaps_True split: sum.splits)
  then show ?thesis
    using assms by (simp add: check_appointment_available_def Let_def no_conflict_iff)
qed

lemma check_unavailable_if_double_booked:
  assumes "list_ex (\<lambda>(k, a). \<not> (py_truthy ex \<and> py_eq k ex) \<and> double_booked L a data) appts"
  shows "\<not> check_appointment_available L appts data ex"
proof
  assume av: "check_appointment_available L appts data ex"
  then have doc: "py_truthy (py_get data ''doctor'' (VStr ''''))"
    by (rule check_available_doctor)
  then have d: "py_get data ''doctor'' VNone = py_get data ''doctor'' (VStr '''')"
    by (rule py_get_truthy_default)
  from av obtain r where r: "appt_interval L data = Inr r"
    and nc: "no_conflict L (py_get data ''doctor'' (VStr '''')) r ex appts"
    by (auto simp: check_appointment_available_def Let_def split: if_splits sum.splits)
  from assms obtain k a where mem: "(k, a) \<in> set appts"
    and ex: "\<not> (py_truthy ex \<and> py_eq k ex)" and db: "double_booked L a data"
    by (auto simp: list_ex_iff)
  from db r d have "py_eq (py_get a ''doctor'' VNone) (py_get data ''doctor'' (VStr '''')) \<and>
        (\<exists>e. appt_interval L a = Inr e \<and> overlaps r e = Inr True)"
    by (auto simp: double_booked_def overlaps_True split: sum.splits)
  with mem ex nc show False
    unfolding no_conflict_excluding_iff list_ex_iff by blast
qed

lemma add_appointment_stored:
  assumes "add_appointment L now uuid appts data = (Inr (), appts')"
  shows "\<exists>stored. dict_get appts' (py_get data ''id'' (VStr uuid)) = Some stored \<and>
           py_get stored ''doctor'' (VStr '''') = py_get data ''doctor'' (VStr '''') \<and>
           py_get stored ''datetime'' (VStr '''') = py_get data ''datetime'' (VStr '''') \<and>
           check_appointment_available L appts data VNone"
  using assms
  by (auto simp: add_appointment_def Let_def dict_get_dict_set_same py_get_update
           split: if_splits)

text \<open>A call that fails leaves the appointments as they were.\<close>

lemma add_appointment_failure_frame:
  "fst (add_appointment L now uuid appts data) = Inl f \<Longrightarrow>
   snd (add_appointment L now uuid appts data) = appts"
  by (auto simp: add_appointment_def Let_def split: if_splits)

lemma update_appointment_failure_frame:
  "fst (update_appointment L now appts appointment_id updated_data) = Inl f \<Longrightarrow>
   snd (update_appointment L now appts appointment_id updated_data) = appts"
  by (auto simp: update_appointment_def Let_def split: option.splits if_splits)

text \<open>A request that is double booked with a stored appointment is never added.\<close>

lemma add_appointment_checked:
  assumes "spec_conflict L appts data"
  shows "\<exists>f. add_appointment L now uuid appts data = (Inl f, appts)"
proof -
  from assms have "list_ex (\<lambda>(k, a). \<not> (py_truthy VNone \<and> py_eq k VNone) \<and> double_booked L a data) appts"
    by (simp add: spec_conflict_def)
  from check_unavailable_if_double_booked [OF this] show ?thesis
    by (simp add: add_appointment_def Let_def)
qed

text \<open>
  An update that changes the datetime or the doctor and would double book the updated
  appointment with another one is refused, and nothing is changed.
\<close>

lemma update_appointment_checked:
  assumes "dict_get appts appointment_id = Some appointment"
      and "(py_get updated_data ''datetime'' VNone \<noteq> VNone \<and>
            \<not> py_eq (py_get updated_data ''datetime'' VNone) (py_get appointment ''datetime'' VNone)) \<or>
           (py_get updated_data ''doctor'' VNone \<noteq> VNone \<and>
            \<not> py_eq (py_get updated_data ''doctor'' VNone) (py_get appointment ''doctor'' VNone))"
      and "list_ex (\<lambda>(k, a). \<not> (py_truthy appointment_id \<and> py_eq k appointment_id) \<and>
                      double_booked L a (dict_update appointment updated_data)) appts"
  shows "update_appointment L now appts appointment_id updated_data = (Inl ConflictError, appts)"
  using assms(1,2) check_unavailable_if_double_booked [OF assms(3)]
  by (auto simp: update_appointment_def Let_def)

text \<open>
  The scenario of the specification: Dr. Smith at 09:00 is accepted, Dr. Smith at 09:15
  conflicts with it, Dr. Jones at 09:15 is accepted.
\<close>

lemma scheduling_scenario:
  "fst (add_appointment std_lib jan10_0900 ''u1'' [] smith_0900) = Inr () \<and>
   add_appointment std_lib jan10_0900 ''u2''
       (snd (add_appointment std_lib jan10_0900 ''u1'' [] smith_0900)) smith_0915
     = (Inl ConflictError, snd (add_appointment std_lib jan10_0900 ''u1'' [] smith_0900)) \<and>
   fst (add_appointment std_lib jan10_0900 ''u3''
       (snd (add_appointment std_lib jan10_0900 ''u1'' [] smith_0900)) jones_0915) = Inr ()"
  by code_simp

subsection \<open>Claim C1\<close>

text \<open>
  C1 (as stated): for every appointment store and every add request with a non-empty
  patient identifier, a parsable datetime and a fresh identifier, \<open>add_appointment\<close>
  fails with a conflict error if and only if some stored appointment of the same doctor
  overlaps the request. The statement fails for a request without a doctor and for a
  request whose duration is no number: both are refused with the conflict message on
  an empty store.
\<close>

theorem add_appointment_conflict_counterexample:
  "py_truthy (py_get request_no_doctor ''patient_id'' VNone) \<and>
   py_fromisoformat std_lib (py_get request_no_doctor ''datetime'' VNone) = Inr (Naive jan10_0900) \<and>
   dict_get ([] :: appointments) (py_get request_no_doctor ''id'' (VStr ''u1'')) = None \<and>
   add_appointment std_lib jan10_0900 ''u1'' [] request_no_doctor = (Inl ConflictError, []) \<and>
   \<not> spec_conflict std_lib [] request_no_doctor \<and>
   py_truthy (py_get request_text_duration ''patient_id'' VNone) \<and>
   py_fromisoformat std_lib (py_get request_text_duration ''datetime'' VNone) = Inr (Naive jan10_0900) \<and>
   dict_get ([] :: appointments) (py_get request_text_duration ''id'' (VStr ''u1'')) = None \<and>
   add_appointment std_lib jan10_0900 ''u1'' [] request_text_duration = (Inl ConflictError, []) \<and>
   \<not> spec_conflict std_lib [] request_text_duration"
  by code_simp

text \<open>
  C1 (amended): for every appointment store and every add request with a non-empty
  patient identifier, a non-empty doctor, a non-empty datetime that parses, a duration
  (30 minutes when absent) with which the end of the interval can be computed, and a
  fresh identifier, \<open>add_appointment\<close> fails with a conflict error if and only if the
  request is double booked with a stored appointment, whatever the status of that
  appointment; otherwise it succeeds. Stored appointments whose interval cannot be
  computed, or cannot be compared with the request, do not conflict.
\<close>

theorem add_appointment_conflict_iff:
  assumes "py_truthy (py_get data ''patient_id'' VNone)"
      and "py_truthy (py_get data ''datetime'' VNone)"
      and "py_truthy (py_get data ''doctor'' VNone)"
      and "appt_interval L data = Inr r"
      and "dict_get appts (py_get data ''id'' (VStr uuid)) = None"
  shows "(fst (add_appointment L now uuid appts data) = Inl ConflictError
            \<longleftrightarrow> spec_conflict L appts data) \<and>
         (\<not> spec_conflict L appts data \<longrightarrow> fst (add_appointment L now uuid appts data) = Inr ())"
proof -
  have "check_appointment_available L appts data VNone \<longleftrightarrow> \<not> spec_conflict L appts data"
    using assms(2,3,4) by (intro check_available_iff) (simp_all add: py_get_truthy_default')
  then show ?thesis
    using assms(1,2,5) by (simp add: add_appointment_def Let_def)
qed

theorem add_appointment_conflict_iff_witness:
  "py_truthy (py_get smith_0915 ''patient_id'' VNone) \<and>
   py_truthy (py_get smith_0915 ''datetime'' VNone) \<and>
   py_truthy (py_get smith_0915 ''doctor'' VNone) \<and>
   appt_interval std_lib smith_0915 = Inr (Naive 63872097300000000, Naive 63872099100000000) \<and>
   dict_get [(VStr ''a1'', smith_0900)] (py_get smith_0915 ''id'' (VStr ''u1'')) = None \<and>
   spec_conflict std_lib [(VStr ''a1'', smith_0900)] smith_0915 \<and>
   fst (add_appointment std_lib jan10_0900 ''u1'' [(VStr ''a1'', smith_0900)] smith_0915)
     = Inl ConflictError"
proof -
  have h1: "py_truthy (py_get smith_0915 ''patient_id'' VNone)" by code_simp
  have h2: "py_truthy (py_get smith_0915 ''datetime'' VNone)" by code_simp
  have h3: "py_truthy (py_get smith_0915 ''doctor'' VNone)" by code_simp
  have h4: "appt_interval std_lib smith_0915
              = Inr (Naive 63872097300000000, Naive 63872099100000000)" by code_simp
  have h5: "dict_get [(VStr ''a1'', smith_0900)] (py_get smith_0915 ''id'' (VStr ''u1'')) = None"
    by code_simp
  have c: "spec_conflict std_lib [(VStr ''a1'', smith_0900)] smith_0915" by code_simp
  from add_appointment_conflict_iff [OF h1 h2 h3 h4 h5, of jan10_0900] c
  have "fst (add_appointment std_lib jan10_0900 ''u1'' [(VStr ''a1'', smith_0900)] smith_0915)
          = Inl ConflictError"
    by blast
  with h1 h2 h3 h4 h5 c show ?thesis by blast
qed

subsection \<open>Claim C2\<close>

text \<open>
  C2: any call to \<open>add_appointment\<close> or \<open>update_appointment\<close> that would produce an
  overlap between two appointments of the same doctor returns a conflict error and
  leaves the store unchanged. \<open>update_appointment\<close> runs the availability check only
  when the datetime or the doctor changes: an update that only lengthens the duration
  is applied without any check. Here Dr. Smith has appointments at 09:00 and 09:30 of
  30 minutes each; setting the duration of the first to 60 minutes succeeds and leaves
  the two double booked.
\<close>

theorem update_duration_double_books:
  "\<not> double_booked std_lib smith_0900 smith_0930 \<and>
   update_appointment std_lib jan10_0900
       [(VStr ''a1'', smith_0900), (VStr ''a2'', smith_0930)] (VStr ''a1'') [(''duration'', VInt 60)]
     = (Inr (),
        [(VStr ''a1'', [(''patient_id'', VStr ''P0001''), (''datetime'', VStr ''2025-01-10T09:00''),
                        (''duration'', VInt 60), (''doctor'', VStr ''Dr. Smith''),
                        (''status'', VStr ''scheduled''),
                        (''last_updated'', VStr ''2025-01-10T09:00:00'')]),
         (VStr ''a2'', smith_0930)]) \<and>
   double_booked std_lib
       [(''patient_id'', VStr ''P0001''), (''datetime'', VStr ''2025-01-10T09:00''),
        (''duration'', VInt 60), (''doctor'', VStr ''Dr. Smith''),
        (''status'', VStr ''scheduled''), (''last_updated'', VStr ''2025-01-10T09:00:00'')]
       smith_0930"
  by code_simp

subsection \<open>Claim C10\<close>

text \<open>
  C10: for every appointment store, \<open>add_appointment\<close> fails whenever the doctor of the
  request is missing or empty or its datetime does not parse, because the availability
  check reports such a request as unavailable; so every appointment stored through
  \<open>add_appointment\<close> has a non-empty doctor and a datetime that parses.
\<close>

theorem add_appointment_needs_doctor_and_datetime:
  "((\<not> py_truthy (py_get data ''doctor'' (VStr '''')) \<or>
     (\<forall>d. py_fromisoformat L (py_get data ''datetime'' (VStr '''')) \<noteq> Inr d)) \<longrightarrow>
      \<not> check_appointment_available L appts data VNone \<and>
      (\<exists>f. add_appointment L now uuid appts data = (Inl f, appts))) \<and>
   (add_appointment L now uuid appts data = (Inr (), appts') \<longrightarrow>
      (\<exists>stored. dict_get appts' (py_get data ''id'' (VStr uuid)) = Some stored \<and>
         py_truthy (py_get stored ''doctor'' VNone) \<and>
         (\<exists>d. py_fromisoformat L (py_get stored ''datetime'' VNone) = Inr d)))"
proof (intro conjI impI)
  assume bad: "\<not> py_truthy (py_get data ''doctor'' (VStr '''')) \<or>
     (\<forall>d. py_fromisoformat L (py_get data ''datetime'' (VStr '''')) \<noteq> Inr d)"
  show unavailable: "\<not> check_appointment_available L appts data VNone"
    using bad check_available_doctor check_available_datetime by blast
  then show "\<exists>f. add_appointment L now uuid appts data = (Inl f, appts)"
    by (simp add: add_appointment_def Let_def)
next
  assume ok: "add_appointment L now uuid appts data = (Inr (), appts')"
  from add_appointment_stored[OF ok] obtain stored where
    s: "dict_get appts' (py_get data ''id'' (VStr uuid)) = Some stored"
       "py_get stored ''doctor'' (VStr '''') = py_get data ''doctor'' (VStr '''')"
       "py_get stored ''datetime'' (VStr '''') = py_get data ''datetime'' (VStr '''')"
       "check_appointment_available L appts data VNone"
    by blast
  have doc: "py_truthy (py_get stored ''doctor'' (VStr ''''))"
    using s(2) check_available_doctor[OF s(4)] by simp
  have "py_truthy (py_get data ''datetime'' (VStr ''''))"
    using s(4) by (auto simp: check_appointment_available_def Let_def split: if_splits)
  then have dt: "py_truthy (py_get stored ''datetime'' (VStr ''''))"
    using s(3) by simp
  obtain d where "py_fromisoformat L (py_get stored ''datetime'' (VStr '''')) = Inr d"
    using s(3) check_available_datetime[OF s(4)] by auto
  then show "\<exists>stored. dict_get appts' (py_get data ''id'' (VStr uuid)) = Some stored \<and>
         py_truthy (py_get stored ''doctor'' VNone) \<and>
         (\<exists>d. py_fromisoformat L (py_get stored ''datetime'' VNone) = Inr d)"
    using s(1) doc dt by (auto simp: py_get_truthy_default)
qed

theorem add_appointment_needs_doctor_and_datetime_witness:
  "\<not> py_truthy (py_get request_no_doctor ''doctor'' (VStr '''')) \<and>
   \<not> check_appointment_available std_lib [] request_no_doctor VNone \<and>
   (\<exists>f. add_appointment std_lib jan10_0900 ''u1'' [] request_no_doctor = (Inl f, [])) \<and>
   add_appointment std_lib jan10_0900 ''u1'' [] jones_0915
     = (Inr (), [(VStr ''u1'', jones_0915 @ [(''created_on'', VStr ''2025-01-10T09:00:00''),
                                             (''status'', VStr ''scheduled'')])]) \<and>
   (\<exists>stored. dict_get [(VStr ''u1'', jones_0915 @ [(''created_on'', VStr ''2025-01-10T09:00:00''),
                                                    (''status'', VStr ''scheduled'')])]
                (py_get jones_0915 ''id'' (VStr ''u1'')) = Some stored \<and>
      py_truthy (py_get stored ''doctor'' VNone) \<and>
      (\<exists>d. py_fromisoformat std_lib (py_get stored ''datetime'' VNone) = Inr d))"
proof -
  have h1: "\<not> py_truthy (py_get request_no_doctor ''doctor'' (VStr ''''))" by code_simp
  have h2: "add_appointment std_lib jan10_0900 ''u1'' [] jones_0915
     = (Inr (), [(VStr ''u1'', jones_0915 @ [(''created_on'', VStr ''2025-01-10T09:00:00''),
                                             (''status'', VStr ''scheduled'')])])"
    by code_simp
  note t = add_appointment_needs_doctor_and_datetime
  from t [of request_no_doctor std_lib "[]" jan10_0900 "''u1''"] h1
  have c1: "\<not> check_appointment_available std_lib [] request_no_doctor VNone \<and>
   (\<exists>f. add_appointment std_lib jan10_0900 ''u1'' [] request_no_doctor = (Inl f, []))"
    by blast
  from t [of jones_0915 std_lib "[]" jan10_0900 "''u1''"] h2
  have c2: "\<exists>stored. dict_get [(VStr ''u1'', jones_0915 @ [(''created_on'', VStr ''2025-01-10T09:00:00''),
                                                    (''status'', VStr ''scheduled'')])]
                (py_get jones_0915 ''id'' (VStr ''u1'')) = Some stored \<and>
      py_truthy (py_get stored ''doctor'' VNone) \<and>
      (\<exists>d. py_fromisoformat std_lib (py_get stored ''datetime'' VNone) = Inr d)"
    by blast
  from h1 h2 c1 c2 show ?thesis by blast
qed

section \<open>Properties of the patient manager\<close>

lemma dict_get_dict_del_other:
  "\<not> py_eq k k' \<Longrightarrow> dict_get (dict_del d k) k' = dict_get d k'"
  by (induction d) (auto simp: py_eq_def)

lemma dict_get_dict_del_None: "dict_get d k' = None \<Longrightarrow> dict_get (dict_del d k) k' = None"
  by (induction d) (auto split: if_splits)

lemma dict_get_dict_del_same: "dict_ok d \<Longrightarrow> dict_get (dict_del d k) k = None"
  by (induction d) (auto simp: dict_get_cong)

lemma dict_ok_dict_set: "dict_ok d \<Longrightarrow> dict_ok (dict_set d k v)"
proof (induction d)
  case Nil
  then show ?case by simp
next
  case (Cons p d)
  obtain k' v' where p: "p = (k', v')" by (cases p)
  show ?case
  proof (cases "py_eq k' k")
    case True
    with Cons.prems p show ?thesis by simp
  next
    case False
    then have "\<not> py_eq k k'" by (simp add: py_eq_sym)
    with Cons p False show ?thesis by (simp add: dict_get_dict_set)
  qed
qed

lemma dict_ok_dict_del: "dict_ok d \<Longrightarrow> dict_ok (dict_del d k)"
  by (induction d) (auto simp: dict_get_dict_del_None)

lemma entries_for_None: "dict_get d k = None \<Longrightarrow> entries_for d k = []"
  by (induction d) (auto simp: entries_for_def split: if_splits)

lemma entries_for_Cons:
  "entries_for ((pid, pd) # ps) k = (if py_eq pid k then [(pid, pd)] else []) @ entries_for ps k"
  by (simp add: entries_for_def)

lemma dict_ok_entries: "dict_ok d \<Longrightarrow> length (entries_for d k) \<le> 1"
proof (induction d)
  case Nil
  then show ?case by (simp add: entries_for_def)
next
  case (Cons p d)
  obtain k' v' where p: "p = (k', v')" by (cases p)
  show ?case
  proof (cases "py_eq k' k")
    case True
    with Cons.prems p have "dict_get d k = None" by (simp add: dict_get_cong[of k' k])
    then have "entries_for d k = []" by (rule entries_for_None)
    with True p show ?thesis by (simp add: entries_for_def)
  next
    case False
    with Cons p show ?thesis by (simp add: entries_for_def)
  qed
qed

lemma dict_get_member: "(k, v) \<in> set d \<Longrightarrow> dict_get d k \<noteq> None"
  by (induction d) auto

lemma dict_get_in_set: "dict_get d k = Some v \<Longrightarrow> \<exists>k'. (k', v) \<in> set d"
  by (induction d) (auto split: if_splits)

lemma dict_ok_entries_for:
  "dict_ok d \<Longrightarrow> (k, v) \<in> set d \<Longrightarrow> entries_for d k = [(k, v)]"
proof (induction d)
  case Nil
  then show ?case by simp
next
  case (Cons p d)
  obtain k' v' where p: "p = (k', v')" by (cases p)
  show ?case
  proof (cases "(k, v) = (k', v')")
    case True
    with Cons.prems p have "dict_get d k = None" by simp
    then have "entries_for d k = []" by (rule entries_for_None)
    with True p show ?thesis by (simp add: entries_for_Cons)
  next
    case False
    with Cons.prems p have mem: "(k, v) \<in> set d" by auto
    have "\<not> py_eq k' k"
    proof
      assume "py_eq k' k"
      then have "dict_get d k' = dict_get d k" by (rule dict_get_cong)
      with Cons.prems(1) p dict_get_member [OF mem] show False by simp
    qed
    with Cons.IH Cons.prems(1) mem p show ?thesis by (simp add: entries_for_Cons)
  qed
qed

lemma pm_step_active_ok:
  assumes "dict_ok (active_visits pm)"
  shows "dict_ok (active_visits (snd (pm_step L pm c)))"
proof (cases c)
  case (AddPatient now d)
  with assms show ?thesis
    by (auto simp: add_patient_def Let_def split: pyval.splits if_splits)
next
  case (UpdatePatient now p d)
  with assms show ?thesis
    by (auto simp: update_patient_def Let_def split: option.splits)
next
  case (DeletePatient p)
  with assms show ?thesis by (auto simp: delete_patient_def)
next
  case (StartVisit now p d)
  with assms show ?thesis
    by (auto simp: start_visit_def Let_def dict_ok_dict_set split: option.splits)
next
  case (EndVisit now now' p n)
  with assms show ?thesis
    by (auto simp: end_visit_def Let_def dict_ok_dict_set dict_ok_dict_del
             split: option.splits sum.splits if_splits)
next
  case (UpdateVisitNotes p n)
  with assms show ?thesis
    by (auto simp: update_visit_notes_def dict_ok_dict_set split: option.splits)
next
  case (AddMedicalHistory now p d)
  with assms show ?thesis
    by (auto simp: add_medical_history_def Let_def split: option.splits sum.splits)
qed

lemma pm_run_active_ok:
  "dict_ok (active_visits pm) \<Longrightarrow> dict_ok (active_visits (pm_run L pm cs))"
  by (induction cs arbitrary: pm) (auto simp: pm_step_active_ok)

lemma close_visit_map_of:
  "map_of (close_visit L now v notes) ''end_time'' = Some (now_iso L now)"
  "map_of (close_visit L now v notes) ''status'' = Some (VStr ''completed'')"
  by (auto simp: close_visit_def Let_def update_conv' split: option.splits)

lemma close_visit_notes_map_of:
  assumes "n \<noteq> []"
  shows "map_of (close_visit L now v (Some n)) ''notes''
           = Some (py_get n ''notes'' (py_get v ''notes'' (VStr '''')))"
    and "map_of (close_visit L now v (Some n)) ''diagnosis'' = Some (py_get n ''diagnosis'' (VStr ''''))"
    and "map_of (close_visit L now v (Some n)) ''treatment'' = Some (py_get n ''treatment'' (VStr ''''))"
    and "map_of (close_visit L now v (Some n)) ''follow_up'' = Some (py_get n ''follow_up'' (VStr ''''))"
  using assms by (simp_all add: close_visit_def Let_def update_conv' py_get_update)

lemma close_visit_untouched:
  assumes "k \<notin> {''end_time'', ''status'', ''notes'', ''diagnosis'', ''treatment'', ''follow_up''}"
  shows "map_of (close_visit L now v notes) k = map_of v k"
  using assms by (auto simp: close_visit_def Let_def update_conv' split: option.splits)

lemma close_visit_no_notes:
  assumes "notes = None \<or> notes = Some []"
      and "k \<in> {''notes'', ''diagnosis'', ''treatment'', ''follow_up''}"
  shows "map_of (close_visit L now v notes) k = map_of v k"
  using assms by (auto simp: close_visit_def Let_def update_conv')

lemma start_time_as_string_other:
  "k \<noteq> ''start_time'' \<Longrightarrow> map_of (start_time_as_string L v) k = map_of v k"
  by (auto simp: start_time_as_string_def update_conv' split: option.splits atom.splits)

lemma start_time_as_string_start:
  "map_of (start_time_as_string L v) ''start_time'' =
     (case map_of v ''start_time'' of
        Some (VDateTime d) \<Rightarrow> Some (VStr (isoformat L d))
      | other \<Rightarrow> other)"
  by (auto simp: start_time_as_string_def update_conv' split: option.splits atom.splits)

lemma list_append_Inr:
  "list_append obj k x = Inr obj' \<longleftrightarrow>
   (\<exists>xs. map_of obj k = Some (PList xs) \<and> obj' = AList.update k (PList (xs @ [x])) obj)"
  by (auto simp: list_append_def split: option.splits pyval.splits)

lemma end_visit_Inr:
  assumes "end_visit L now now' pm patient_id visit_notes = (Inr (), pm')"
  shows "\<exists>patient visit_data patient1 patient2.
     dict_get (patients pm) patient_id = Some patient \<and>
     dict_get (active_visits pm) patient_id = Some visit_data \<and>
     list_append patient ''visit_history''
        (visit_snapshot (start_time_as_string L (close_visit L now visit_data visit_notes)))
        = Inr patient1 \<and>
     (if diagnosis_given visit_notes
      then list_append patient1 ''medical_history'' (diagnosis_entry L now' (the visit_notes))
           = Inr patient2
      else patient2 = patient1) \<and>
     pm' = \<lparr>patients = dict_set (patients pm) patient_id patient2,
            active_visits = dict_del (active_visits pm) patient_id\<rparr>"
  using assms unfolding end_visit_def Let_def
  by (auto split: option.splits sum.splits if_splits)

lemma end_visit_start_time:
  assumes "end_visit L now now' pm patient_id visit_notes = (Inr (), pm')"
      and "dict_get (active_visits pm) patient_id = Some visit_data"
  shows "map_of visit_data ''start_time'' \<noteq> None"
  using assms unfolding end_visit_def Let_def
  by (auto simp: close_visit_untouched split: option.splits sum.splits if_splits)

lemma diagnosis_given_iff:
  "diagnosis_given visit_notes \<longleftrightarrow>
   (\<exists>n d. visit_notes = Some n \<and> map_of n ''diagnosis'' = Some d \<and>
          d \<notin> {VNone, VBool False, VInt 0, VStr ''''})"
proof -
  have t: "\<And>d. py_truthy d \<longleftrightarrow> d \<notin> {VNone, VBool False, VInt 0, VStr ''''}"
    subgoal for d by (cases d) auto
    done
  show ?thesis
    by (auto simp: diagnosis_given_def t split: option.splits)
qed

subsection \<open>Claim C3\<close>

text \<open>
  C3: for every patient, at most one entry for that patient exists in the active-visits
  mapping at any time, and every operation preserves this; calling \<open>start_visit\<close> for
  a patient who already has an active visit returns \<open>AlreadyActive\<close> and leaves the
  state, hence the data of the original visit, unchanged. The run is any sequence of
  calls of the manager's operations from a state whose mapping is a dictionary.
\<close>

theorem one_active_visit_per_patient:
  "(dict_ok (active_visits pm) \<longrightarrow>
      length (entries_for (active_visits (pm_run L pm calls)) patient_id) \<le> 1) \<and>
   (dict_get (patients pm) patient_id \<noteq> None \<and> dict_get (active_visits pm) patient_id \<noteq> None \<longrightarrow>
      start_visit now pm patient_id visit_data = (Inl AlreadyActive, pm)) \<and>
   (dict_get (active_visits pm) patient_id = None \<and>
    fst (start_visit now pm patient_id visit_data) = Inr () \<longrightarrow>
      start_visit now' (snd (start_visit now pm patient_id visit_data)) patient_id visit_data'
        = (Inl AlreadyActive, snd (start_visit now pm patient_id visit_data)))"
proof (intro conjI impI)
  assume "dict_ok (active_visits pm)"
  then show "length (entries_for (active_visits (pm_run L pm calls)) patient_id) \<le> 1"
    by (intro dict_ok_entries pm_run_active_ok)
next
  assume "dict_get (patients pm) patient_id \<noteq> None \<and> dict_get (active_visits pm) patient_id \<noteq> None"
  then show "start_visit now pm patient_id visit_data = (Inl AlreadyActive, pm)"
    by (auto simp: start_visit_def)
next
  assume "dict_get (active_visits pm) patient_id = None \<and>
    fst (start_visit now pm patient_id visit_data) = Inr ()"
  then show "start_visit now' (snd (start_visit now pm patient_id visit_data)) patient_id visit_data'
        = (Inl AlreadyActive, snd (start_visit now pm patient_id visit_data))"
    by (auto simp: start_visit_def Let_def dict_get_dict_set split: option.splits)
qed

theorem one_active_visit_per_patient_witness:
  "dict_ok (active_visits clinic) \<and>
   length (entries_for (active_visits (pm_run std_lib clinic
        [StartVisit jan10_0900 (VStr ''P0001'') (Some visit_request),
         StartVisit (jan10_0900 + minute_us) (VStr ''P0001'') None])) (VStr ''P0001'')) \<le> 1 \<and>
   dict_get (patients clinic_visiting) (VStr ''P0001'') \<noteq> None \<and>
   dict_get (active_visits clinic_visiting) (VStr ''P0001'') \<noteq> None \<and>
   start_visit (jan10_0900 + minute_us) clinic_visiting (VStr ''P0001'') None
     = (Inl AlreadyActive, clinic_visiting) \<and>
   dict_get (active_visits clinic) (VStr ''P0001'') = None \<and>
   fst (start_visit jan10_0900 clinic (VStr ''P0001'') (Some visit_request)) = Inr () \<and>
   start_visit (jan10_0900 + minute_us)
       (snd (start_visit jan10_0900 clinic (VStr ''P0001'') (Some visit_request))) (VStr ''P0001'') None
     = (Inl AlreadyActive, snd (start_visit jan10_0900 clinic (VStr ''P0001'') (Some visit_request)))"
proof -
  have h1: "dict_ok (active_visits clinic)" by code_simp
  have h2: "dict_get (patients clinic_visiting) (VStr ''P0001'') \<noteq> None \<and>
            dict_get (active_visits clinic_visiting) (VStr ''P0001'') \<noteq> None" by code_simp
  have h3: "dict_get (active_visits clinic) (VStr ''P0001'') = None \<and>
            fst (start_visit jan10_0900 clinic (VStr ''P0001'') (Some visit_request)) = Inr ()"
    by code_simp
  note t = one_active_visit_per_patient
  from t [of clinic std_lib _ "VStr ''P0001''"] h1
  have c1: "length (entries_for (active_visits (pm_run std_lib clinic
        [StartVisit jan10_0900 (VStr ''P0001'') (Some visit_request),
         StartVisit (jan10_0900 + minute_us) (VStr ''P0001'') None])) (VStr ''P0001'')) \<le> 1"
    by blast
  from t [of clinic_visiting std_lib _ "VStr ''P0001''"] h2
  have c2: "start_visit (jan10_0900 + minute_us) clinic_visiting (VStr ''P0001'') None
     = (Inl AlreadyActive, clinic_visiting)"
    by blast
  from t [of clinic std_lib _ "VStr ''P0001''" jan10_0900 "Some visit_request"] h3
  have c3: "start_visit (jan10_0900 + minute_us)
       (snd (start_visit jan10_0900 clinic (VStr ''P0001'') (Some visit_request))) (VStr ''P0001'') None
     = (Inl AlreadyActive, snd (start_visit jan10_0900 clinic (VStr ''P0001'') (Some visit_request)))"
    by blast
  from h1 h2 h3 c1 c2 c3 show ?thesis by blast
qed

subsection \<open>Claim C4\<close>

text \<open>
  C4: \<open>end_visit\<close> is all-or-nothing on its error path: when the patient does not
  exist or has no active visit, it fails with \<open>NotFound\<close> or \<open>NoActiveVisit\<close> and
  the state (visit histories, medical histories and active visits) is exactly as before.
\<close>

theorem end_visit_all_or_nothing:
  "dict_get (patients pm) patient_id = None \<or> dict_get (active_visits pm) patient_id = None \<longrightarrow>
   end_visit L now now' pm patient_id visit_notes =
     (if dict_get (patients pm) patient_id = None then Inl NotFound else Inl NoActiveVisit, pm)"
  by (auto simp: end_visit_def split: option.splits)

theorem end_visit_all_or_nothing_witness:
  "(dict_get (patients clinic) (VStr ''P0001'') = None \<or>
    dict_get (active_visits clinic) (VStr ''P0001'') = None) \<and>
   end_visit std_lib jan10_0900 jan10_0900 clinic (VStr ''P0001'') (Some dialog_notes)
     = (Inl NoActiveVisit, clinic) \<and>
   (dict_get (patients clinic_visiting) (VStr ''P0002'') = None \<or>
    dict_get (active_visits clinic_visiting) (VStr ''P0002'') = None) \<and>
   end_visit std_lib jan10_0900 jan10_0900 clinic_visiting (VStr ''P0002'') (Some dialog_notes)
     = (Inl NotFound, clinic_visiting)"
proof -
  have h1: "dict_get (active_visits clinic) (VStr ''P0001'') = None" by code_simp
  have p1: "dict_get (patients clinic) (VStr ''P0001'') \<noteq> None" by code_simp
  have h2: "dict_get (patients clinic_visiting) (VStr ''P0002'') = None" by code_simp
  note t = end_visit_all_or_nothing
  from t [of clinic "VStr ''P0001''" std_lib jan10_0900 jan10_0900 "Some dialog_notes"] h1 p1
  have c1: "end_visit std_lib jan10_0900 jan10_0900 clinic (VStr ''P0001'') (Some dialog_notes)
     = (Inl NoActiveVisit, clinic)"
    by simp
  from t [of clinic_visiting "VStr ''P0002''" std_lib jan10_0900 jan10_0900 "Some dialog_notes"] h2
  have c2: "end_visit std_lib jan10_0900 jan10_0900 clinic_visiting (VStr ''P0002'') (Some dialog_notes)
     = (Inl NotFound, clinic_visiting)"
    by simp
  from h1 h2 c1 c2 show ?thesis by blast
qed

subsection \<open>Claim C5\<close>

text \<open>
  C5: when \<open>end_visit\<close> succeeds, the finished visit is the active visit with the end
  time stamped, the status \<^verbatim>\<open>completed\<close>, the notes, diagnosis, treatment and follow-up
  of the supplied \<open>visit_notes\<close> merged in (left as they were when no notes are
  supplied), the start time as an ISO string and every other field unchanged. A copy of
  it, with the same keys in the same order and the same value under each key, is appended
  to the patient's visit history. An entry of type \<^verbatim>\<open>diagnosis\<close> is appended to the
  medical history exactly when \<open>visit_notes\<close> has a diagnosis that is not empty (not
  \<^verbatim>\<open>None\<close>, \<^verbatim>\<open>False\<close>, \<^verbatim>\<open>0\<close> or the empty string); its condition is that diagnosis, its
  notes and treatment are those supplied, and they are those of the finished visit (the
  notes whenever \<open>visit_notes\<close> has a notes key). Otherwise the medical history is left
  as it was. The patient's active-visit entry is removed.
\<close>

theorem end_visit_success:
  assumes "end_visit L now now' pm patient_id visit_notes = (Inr (), pm')"
  shows "\<exists>patient visit_data finished old_visits patient1 patient2.
     dict_get (patients pm) patient_id = Some patient \<and>
     dict_get (active_visits pm) patient_id = Some visit_data \<and>
     finished = start_time_as_string L (close_visit L now visit_data visit_notes) \<and>
     map_of finished ''end_time'' = Some (now_iso L now) \<and>
     map_of finished ''status'' = Some (VStr ''completed'') \<and>
     (\<forall>n. visit_notes = Some n \<and> n \<noteq> [] \<longrightarrow>
        map_of finished ''notes''
          = Some (py_get n ''notes'' (py_get visit_data ''notes'' (VStr ''''))) \<and>
        map_of finished ''diagnosis'' = Some (py_get n ''diagnosis'' (VStr '''')) \<and>
        map_of finished ''treatment'' = Some (py_get n ''treatment'' (VStr '''')) \<and>
        map_of finished ''follow_up'' = Some (py_get n ''follow_up'' (VStr ''''))) \<and>
     (visit_notes = None \<or> visit_notes = Some [] \<longrightarrow>
        (\<forall>k \<in> {''notes'', ''diagnosis'', ''treatment'', ''follow_up''}.
           map_of finished k = map_of visit_data k)) \<and>
     (\<exists>s. map_of visit_data ''start_time'' = Some s \<and>
          map_of finished ''start_time''
            = Some (case s of VDateTime d \<Rightarrow> VStr (isoformat L d) | other \<Rightarrow> s)) \<and>
     (\<forall>k. k \<notin> {''end_time'', ''status'', ''notes'', ''diagnosis'', ''treatment'', ''follow_up'',
               ''start_time''} \<longrightarrow>
          map_of finished k = map_of visit_data k) \<and>
     map_of patient ''visit_history'' = Some (PList old_visits) \<and>
     patient1 = AList.update ''visit_history''
                  (PList (old_visits @ [PDict (map (\<lambda>(k, a). (k, Atom a)) finished)])) patient \<and>
     (if \<exists>n d. visit_notes = Some n \<and> map_of n ''diagnosis'' = Some d \<and>
               d \<notin> {VNone, VBool False, VInt 0, VStr ''''}
      then \<exists>n d old_medical.
             visit_notes = Some n \<and> map_of n ''diagnosis'' = Some d \<and>
             map_of patient ''medical_history'' = Some (PList old_medical) \<and>
             map_of finished ''diagnosis'' = Some d \<and>
             map_of finished ''treatment'' = Some (py_get n ''treatment'' (VStr '''')) \<and>
             (map_of n ''notes'' \<noteq> None \<longrightarrow>
                map_of finished ''notes'' = Some (py_get n ''notes'' (VStr ''''))) \<and>
             patient2 = AList.update ''medical_history''
                  (PList (old_medical @
                     [PDict [(''date'', Atom (now_iso L now')),
                             (''type'', Atom (VStr ''diagnosis'')),
                             (''condition'', Atom d),
                             (''notes'', Atom (py_get n ''notes'' (VStr ''''))),
                             (''treatment'', Atom (py_get n ''treatment'' (VStr '''')))]])) patient1
      else patient2 = patient1) \<and>
     patients pm' = dict_set (patients pm) patient_id patient2 \<and>
     dict_get (patients pm') patient_id = Some patient2 \<and>
     active_visits pm' = dict_del (active_visits pm) patient_id \<and>
     (dict_ok (active_visits pm) \<longrightarrow> dict_get (active_visits pm') patient_id = None)"
proof -
  from end_visit_Inr [OF assms] obtain patient visit_data patient1 patient2 where
    p: "dict_get (patients pm) patient_id = Some patient"
    and v: "dict_get (active_visits pm) patient_id = Some visit_data"
    and a1: "list_append patient ''visit_history''
        (visit_snapshot (start_time_as_string L (close_visit L now visit_data visit_notes)))
        = Inr patient1"
    and a2: "if diagnosis_given visit_notes
      then list_append patient1 ''medical_history'' (diagnosis_entry L now' (the visit_notes))
           = Inr patient2
      else patient2 = patient1"
    and pm': "pm' = \<lparr>patients = dict_set (patients pm) patient_id patient2,
            active_visits = dict_del (active_visits pm) patient_id\<rparr>"
    by blast
  define finished where "finished = start_time_as_string L (close_visit L now visit_data visit_notes)"
  from a1 obtain old_visits where
    vh: "map_of patient ''visit_history'' = Some (PList old_visits)"
    and p1: "patient1 = AList.update ''visit_history''
                  (PList (old_visits @ [PDict (map (\<lambda>(k, a). (k, Atom a)) finished)])) patient"
    unfolding list_append_Inr finished_def visit_snapshot_def by blast
  have f1: "map_of finished ''end_time'' = Some (now_iso L now)"
    and f2: "map_of finished ''status'' = Some (VStr ''completed'')"
    by (simp_all add: finished_def start_time_as_string_other close_visit_map_of)
  have f3: "\<forall>n. visit_notes = Some n \<and> n \<noteq> [] \<longrightarrow>
        map_of finished ''notes''
          = Some (py_get n ''notes'' (py_get visit_data ''notes'' (VStr ''''))) \<and>
        map_of finished ''diagnosis'' = Some (py_get n ''diagnosis'' (VStr '''')) \<and>
        map_of finished ''treatment'' = Some (py_get n ''treatment'' (VStr '''')) \<and>
        map_of finished ''follow_up'' = Some (py_get n ''follow_up'' (VStr ''''))"
    by (simp add: finished_def start_time_as_string_other close_visit_notes_map_of)
  have f4: "visit_notes = None \<or> visit_notes = Some [] \<longrightarrow>
        (\<forall>k \<in> {''notes'', ''diagnosis'', ''treatment'', ''follow_up''}.
           map_of finished k = map_of visit_data k)"
    by (auto simp: finished_def start_time_as_string_other close_visit_no_notes)
  from end_visit_start_time [OF assms v] obtain s where
    s: "map_of visit_data ''start_time'' = Some s"
    by auto
  have f5: "\<exists>s. map_of visit_data ''start_time'' = Some s \<and>
          map_of finished ''start_time''
            = Some (case s of VDateTime d \<Rightarrow> VStr (isoformat L d) | other \<Rightarrow> s)"
    using s by (auto simp: finished_def start_time_as_string_start close_visit_untouched
                     split: atom.splits)
  have f6: "\<forall>k. k \<notin> {''end_time'', ''status'', ''notes'', ''diagnosis'', ''treatment'', ''follow_up'',
               ''start_time''} \<longrightarrow>
          map_of finished k = map_of visit_data k"
    by (simp add: finished_def start_time_as_string_other close_visit_untouched)
  have med: "if \<exists>n d. visit_notes = Some n \<and> map_of n ''diagnosis'' = Some d \<and>
               d \<notin> {VNone, VBool False, VInt 0, VStr ''''}
      then \<exists>n d old_medical.
             visit_notes = Some n \<and> map_of n ''diagnosis'' = Some d \<and>
             map_of patient ''medical_history'' = Some (PList old_medical) \<and>
             map_of finished ''diagnosis'' = Some d \<and>
             map_of finished ''treatment'' = Some (py_get n ''treatment'' (VStr '''')) \<and>
             (map_of n ''notes'' \<noteq> None \<longrightarrow>
                map_of finished ''notes'' = Some (py_get n ''notes'' (VStr ''''))) \<and>
             patient2 = AList.update ''medical_history''
                  (PList (old_medical @
                     [PDict [(''date'', Atom (now_iso L now')),
                             (''type'', Atom (VStr ''diagnosis'')),
                             (''condition'', Atom d),
                             (''notes'', Atom (py_get n ''notes'' (VStr ''''))),
                             (''treatment'', Atom (py_get n ''treatment'' (VStr '''')))]])) patient1
      else patient2 = patient1"
  proof (cases "diagnosis_given visit_notes")
    case False
    then have nc: "\<not> (\<exists>n d. visit_notes = Some n \<and> map_of n ''diagnosis'' = Some d \<and>
               d \<notin> {VNone, VBool False, VInt 0, VStr ''''})"
      unfolding diagnosis_given_iff .
    from False a2 have same: "patient2 = patient1" by simp
    show ?thesis unfolding if_not_P [OF nc] by (rule same)
  next
    case True
    then obtain n d where n: "visit_notes = Some n" and d: "map_of n ''diagnosis'' = Some d"
      by (auto simp: diagnosis_given_def split: option.splits)
    then have ne: "n \<noteq> []" by auto
    from True a2 n obtain old_medical where
      m: "map_of patient1 ''medical_history'' = Some (PList old_medical)"
      and p2: "patient2 = AList.update ''medical_history''
                  (PList (old_medical @ [diagnosis_entry L now' n])) patient1"
      by (auto simp: list_append_Inr)
    from m p1 have m': "map_of patient ''medical_history'' = Some (PList old_medical)"
      by (simp add: update_conv')
    have e: "map_of finished ''diagnosis'' = Some d"
      using f3 n ne d by (simp add: py_get_def)
    have t: "map_of finished ''treatment'' = Some (py_get n ''treatment'' (VStr ''''))"
      using f3 n ne by simp
    have nt: "map_of n ''notes'' \<noteq> None \<longrightarrow>
                map_of finished ''notes'' = Some (py_get n ''notes'' (VStr ''''))"
      using f3 n ne by (auto simp: py_get_def)
    have entry: "diagnosis_entry L now' n =
        PDict [(''date'', Atom (now_iso L now')),
               (''type'', Atom (VStr ''diagnosis'')),
               (''condition'', Atom d),
               (''notes'', Atom (py_get n ''notes'' (VStr ''''))),
               (''treatment'', Atom (py_get n ''treatment'' (VStr '''')))]"
      using d by (simp add: diagnosis_entry_def py_get_def)
    from True have c: "\<exists>n d. visit_notes = Some n \<and> map_of n ''diagnosis'' = Some d \<and>
               d \<notin> {VNone, VBool False, VInt 0, VStr ''''}"
      unfolding diagnosis_given_iff .
    have app: "\<exists>n d old_medical.
             visit_notes = Some n \<and> map_of n ''diagnosis'' = Some d \<and>
             map_of patient ''medical_history'' = Some (PList old_medical) \<and>
             map_of finished ''diagnosis'' = Some d \<and>
             map_of finished ''treatment'' = Some (py_get n ''treatment'' (VStr '''')) \<and>
             (map_of n ''notes'' \<noteq> None \<longrightarrow>
                map_of finished ''notes'' = Some (py_get n ''notes'' (VStr ''''))) \<and>
             patient2 = AList.update ''medical_history''
                  (PList (old_medical @
                     [PDict [(''date'', Atom (now_iso L now')),
                             (''type'', Atom (VStr ''diagnosis'')),
                             (''condition'', Atom d),
                             (''notes'', Atom (py_get n ''notes'' (VStr ''''))),
                             (''treatment'', Atom (py_get n ''treatment'' (VStr '''')))]])) patient1"
      using n d m' e t nt p2 [unfolded entry]
      apply -
      apply (rule exI [of _ n], rule exI [of _ d], rule exI [of _ old_medical])
      apply (intro conjI)
      apply assumption+
      done
    show ?thesis unfolding if_P [OF c] by (rule app)
  qed
  have pat: "patients pm' = dict_set (patients pm) patient_id patient2"
    using pm' by simp
  have look: "dict_get (patients pm') patient_id = Some patient2"
    using pat by (simp add: dict_get_dict_set_same)
  have act: "active_visits pm' = dict_del (active_visits pm) patient_id"
    using pm' by simp
  have gone: "dict_ok (active_visits pm) \<longrightarrow> dict_get (active_visits pm') patient_id = None"
    using act by (simp add: dict_get_dict_del_same)
  show ?thesis
    using p v finished_def f1 f2 f3 f4 f5 f6 vh p1 med pat look act gone
    apply -
    apply (rule exI [of _ patient], rule exI [of _ visit_data], rule exI [of _ finished],
           rule exI [of _ old_visits], rule exI [of _ patient1], rule exI [of _ patient2])
    apply (intro conjI)
    apply assumption+
    done
qed

theorem end_visit_success_witness:
  "end_visit std_lib (jan10_0900 + 30 * minute_us) (jan10_0900 + 30 * minute_us)
     clinic_visiting (VStr ''P0001'') (Some dialog_notes) = (Inr (), clinic_visited) \<and>
   patients clinic_visited = dict_set (patients clinic_visiting) (VStr ''P0001'')
     (AList.update ''medical_history''
        (PList [PDict [(''date'', Atom (VStr ''2025-01-10T09:30:00'')),
                       (''type'', Atom (VStr ''diagnosis'')),
                       (''condition'', Atom (VStr ''flu'')),
                       (''notes'', Atom (VStr ''rest'')),
                       (''treatment'', Atom (VStr ''fluids''))]])
        (AList.update ''visit_history''
           (PList [PDict (map (\<lambda>(k, a). (k, Atom a)) visit_finished)]) patient_ann)) \<and>
   dict_get (active_visits clinic_visited) (VStr ''P0001'') = None \<and>
   end_visit std_lib (jan10_0900 + 30 * minute_us) (jan10_0900 + 30 * minute_us)
     clinic_visiting (VStr ''P0001'') (Some dialog_notes_no_diagnosis)
     = (Inr (), clinic_undiagnosed) \<and>
   patients clinic_undiagnosed = dict_set (patients clinic_visiting) (VStr ''P0001'')
     (AList.update ''visit_history''
        (PList [PDict (map (\<lambda>(k, a). (k, Atom a)) visit_finished_undiagnosed)]) patient_ann) \<and>
   dict_get (active_visits clinic_undiagnosed) (VStr ''P0001'') = None"
proof -
  have h1: "end_visit std_lib (jan10_0900 + 30 * minute_us) (jan10_0900 + 30 * minute_us)
     clinic_visiting (VStr ''P0001'') (Some dialog_notes) = (Inr (), clinic_visited)"
    by code_simp
  have h2: "end_visit std_lib (jan10_0900 + 30 * minute_us) (jan10_0900 + 30 * minute_us)
     clinic_visiting (VStr ''P0001'') (Some dialog_notes_no_diagnosis)
     = (Inr (), clinic_undiagnosed)"
    by code_simp
  have pat: "dict_get (patients clinic_visiting) (VStr ''P0001'') = Some patient_ann"
    by code_simp
  have vis: "dict_get (active_visits clinic_visiting) (VStr ''P0001'') = Some visit_started"
    by code_simp
  have ok: "dict_ok (active_visits clinic_visiting)"
    by code_simp
  have vh: "map_of patient_ann ''visit_history'' = Some (PList [])"
    and mh: "map_of patient_ann ''medical_history'' = Some (PList [])"
    by (simp_all add: patient_ann_def)
  have iso: "now_iso std_lib (jan10_0900 + 30 * minute_us) = VStr ''2025-01-10T09:30:00''"
    by code_simp
  have fin1: "start_time_as_string std_lib
                (close_visit std_lib (jan10_0900 + 30 * minute_us) visit_started (Some dialog_notes))
              = visit_finished"
    by code_simp
  have fin2: "start_time_as_string std_lib
                (close_visit std_lib (jan10_0900 + 30 * minute_us) visit_started
                   (Some dialog_notes_no_diagnosis))
              = visit_finished_undiagnosed"
    by code_simp
  have yes: "\<exists>n d. Some dialog_notes = Some n \<and> map_of n ''diagnosis'' = Some d \<and>
               d \<notin> {VNone, VBool False, VInt 0, VStr ''''}"
    by (simp add: dialog_notes_def)
  have no: "\<not> (\<exists>n d. Some dialog_notes_no_diagnosis = Some n \<and> map_of n ''diagnosis'' = Some d \<and>
               d \<notin> {VNone, VBool False, VInt 0, VStr ''''})"
    by (simp add: dialog_notes_no_diagnosis_def)
  have vals: "py_get dialog_notes ''notes'' (VStr '''') = VStr ''rest''"
             "py_get dialog_notes ''treatment'' (VStr '''') = VStr ''fluids''"
             "map_of dialog_notes ''diagnosis'' = Some (VStr ''flu'')"
    by (simp_all add: dialog_notes_def py_get_def)
  from end_visit_success [OF h1, unfolded if_P [OF yes]]
  obtain patient visit_data finished old_visits patient1 patient2 n dg old_medical where
    a: "dict_get (patients clinic_visiting) (VStr ''P0001'') = Some patient"
    and b: "dict_get (active_visits clinic_visiting) (VStr ''P0001'') = Some visit_data"
    and c: "finished = start_time_as_string std_lib
              (close_visit std_lib (jan10_0900 + 30 * minute_us) visit_data (Some dialog_notes))"
    and d: "map_of patient ''visit_history'' = Some (PList old_visits)"
    and e: "patient1 = AList.update ''visit_history''
              (PList (old_visits @ [PDict (map (\<lambda>(k, a). (k, Atom a)) finished)])) patient"
    and n: "Some dialog_notes = Some n"
    and f1: "map_of n ''diagnosis'' = Some dg"
    and f2: "map_of patient ''medical_history'' = Some (PList old_medical)"
    and f3: "patient2 = AList.update ''medical_history''
                  (PList (old_medical @
                     [PDict [(''date'', Atom (now_iso std_lib (jan10_0900 + 30 * minute_us))),
                             (''type'', Atom (VStr ''diagnosis'')),
                             (''condition'', Atom dg),
                             (''notes'', Atom (py_get n ''notes'' (VStr ''''))),
                             (''treatment'', Atom (py_get n ''treatment'' (VStr '''')))]])) patient1"
    and g: "patients clinic_visited
              = dict_set (patients clinic_visiting) (VStr ''P0001'') patient2"
    and gone: "dict_ok (active_visits clinic_visiting) \<longrightarrow>
                 dict_get (active_visits clinic_visited) (VStr ''P0001'') = None"
    apply (elim exE conjE)
    apply (rule that; assumption)
    done
  from a pat have a': "patient = patient_ann" by simp
  from b vis have b': "visit_data = visit_started" by simp
  from c b' fin1 have c': "finished = visit_finished" by simp
  from d a' vh have d': "old_visits = []" by simp
  from n have n': "n = dialog_notes" by simp
  from f1 n' vals have dg: "dg = VStr ''flu''" by simp
  from f2 a' mh have om: "old_medical = []" by simp
  have c1: "patients clinic_visited = dict_set (patients clinic_visiting) (VStr ''P0001'')
     (AList.update ''medical_history''
        (PList [PDict [(''date'', Atom (VStr ''2025-01-10T09:30:00'')),
                       (''type'', Atom (VStr ''diagnosis'')),
                       (''condition'', Atom (VStr ''flu'')),
                       (''notes'', Atom (VStr ''rest'')),
                       (''treatment'', Atom (VStr ''fluids''))]])
        (AList.update ''visit_history''
           (PList [PDict (map (\<lambda>(k, a). (k, Atom a)) visit_finished)]) patient_ann)) \<and>
     dict_get (active_visits clinic_visited) (VStr ''P0001'') = None"
    unfolding g f3 e a' c' d' dg om n' iso vals using gone ok by simp
  from end_visit_success [OF h2, unfolded if_not_P [OF no]]
  obtain patient visit_data finished old_visits patient1 patient2 where
    a: "dict_get (patients clinic_visiting) (VStr ''P0001'') = Some patient"
    and b: "dict_get (active_visits clinic_visiting) (VStr ''P0001'') = Some visit_data"
    and c: "finished = start_time_as_string std_lib
              (close_visit std_lib (jan10_0900 + 30 * minute_us) visit_data
                 (Some dialog_notes_no_diagnosis))"
    and d: "map_of patient ''visit_history'' = Some (PList old_visits)"
    and e: "patient1 = AList.update ''visit_history''
              (PList (old_visits @ [PDict (map (\<lambda>(k, a). (k, Atom a)) finished)])) patient"
    and f: "patient2 = patient1"
    and g: "patients clinic_undiagnosed
              = dict_set (patients clinic_visiting) (VStr ''P0001'') patient2"
    and gone: "dict_ok (active_visits clinic_visiting) \<longrightarrow>
                 dict_get (active_visits clinic_undiagnosed) (VStr ''P0001'') = None"
    apply (elim exE conjE)
    apply (rule that; assumption)
    done
  from a pat have a': "patient = patient_ann" by simp
  from b vis have b': "visit_data = visit_started" by simp
  from c b' fin2 have c': "finished = visit_finished_undiagnosed" by simp
  from d a' vh have d': "old_visits = []" by simp
  have c2: "patients clinic_undiagnosed = dict_set (patients clinic_visiting) (VStr ''P0001'')
     (AList.update ''visit_history''
        (PList [PDict (map (\<lambda>(k, a). (k, Atom a)) visit_finished_undiagnosed)]) patient_ann) \<and>
     dict_get (active_visits clinic_undiagnosed) (VStr ''P0001'') = None"
    unfolding g f e a' c' d' using gone ok by simp
  from h1 h2 c1 c2 show ?thesis by blast
qed

subsection \<open>Claim C6\<close>

text \<open>
  C6: for every existing patient and every update payload, also one that contains the
  keys \<^verbatim>\<open>medical_history\<close>, \<^verbatim>\<open>visit_history\<close> or \<^verbatim>\<open>created_on\<close>, \<open>update_patient\<close>
  leaves these three fields of the patient equal to their values before the call (a
  field that was absent reads as its default before and after).
\<close>

theorem update_patient_keeps_histories:
  "dict_get (patients pm) patient_id = Some patient \<longrightarrow>
   (\<exists>patient'.
      dict_get (patients (snd (update_patient L now pm patient_id updated_data))) patient_id
        = Some patient' \<and>
      py_get patient' ''medical_history'' (PList []) = py_get patient ''medical_history'' (PList []) \<and>
      py_get patient' ''visit_history'' (PList []) = py_get patient ''visit_history'' (PList []) \<and>
      py_get patient' ''created_on'' (Atom VNone) = py_get patient ''created_on'' (Atom VNone) \<and>
      (\<forall>k \<in> {''medical_history'', ''visit_history'', ''created_on''}.
         \<forall>v. map_of patient k = Some v \<longrightarrow> map_of patient' k = Some v))"
  by (auto simp: update_patient_def Let_def dict_get_dict_set py_get_update update_conv' py_get_def)

theorem update_patient_keeps_histories_witness:
  "dict_get (patients clinic_visited) (VStr ''P0001'') = Some patient_ann_visited \<and>
   (\<exists>patient'.
      dict_get (patients (snd (update_patient std_lib jan10_0900 clinic_visited (VStr ''P0001'')
                                 wiping_payload))) (VStr ''P0001'') = Some patient' \<and>
      py_get patient' ''medical_history'' (PList []) = py_get patient_ann_visited ''medical_history'' (PList []) \<and>
      py_get patient' ''visit_history'' (PList []) = py_get patient_ann_visited ''visit_history'' (PList []) \<and>
      py_get patient' ''created_on'' (Atom VNone) = py_get patient_ann_visited ''created_on'' (Atom VNone) \<and>
      py_get patient' ''name'' (Atom VNone) = Atom (VStr ''Ann Li''))"
proof -
  have h: "dict_get (patients clinic_visited) (VStr ''P0001'') = Some patient_ann_visited"
    by code_simp
  have n: "py_get (the (dict_get (patients (snd (update_patient std_lib jan10_0900 clinic_visited
                 (VStr ''P0001'') wiping_payload))) (VStr ''P0001''))) ''name'' (Atom VNone)
             = Atom (VStr ''Ann Li'')"
    by code_simp
  from update_patient_keeps_histories
         [of clinic_visited "VStr ''P0001''" patient_ann_visited std_lib jan10_0900 wiping_payload] h
  obtain patient' where
    "dict_get (patients (snd (update_patient std_lib jan10_0900 clinic_visited (VStr ''P0001'')
                                 wiping_payload))) (VStr ''P0001'') = Some patient'"
    "py_get patient' ''medical_history'' (PList []) = py_get patient_ann_visited ''medical_history'' (PList [])"
    "py_get patient' ''visit_history'' (PList []) = py_get patient_ann_visited ''visit_history'' (PList [])"
    "py_get patient' ''created_on'' (Atom VNone) = py_get patient_ann_visited ''created_on'' (Atom VNone)"
    by blast
  with h n show ?thesis by auto
qed

section \<open>Properties of archiving\<close>

lemma dt_less_error: "dt_less a b = Inl e \<Longrightarrow> e = TypeError"
  by (cases a; cases b) auto

lemma keep_visit_spec: "keep_visit L cutoff v = spec_keep L cutoff v"
proof (cases v)
  case (Atom a)
  then show ?thesis by (simp add: spec_keep_def end_time_missing_def)
next
  case (PList xs)
  then show ?thesis by (simp add: spec_keep_def end_time_missing_def)
next
  case (PDict d)
  show ?thesis
  proof (cases "py_get d ''end_time'' (Atom VNone)")
    case (Atom a)
    with PDict show ?thesis
      by (cases a)
         (auto simp: spec_keep_def end_time_missing_def end_time_value_def Let_def
               split: option.splits sum.splits pydt.splits bool.splits dest: dt_less_error)
  next
    case (PList xs)
    with PDict show ?thesis
      by (auto simp: spec_keep_def end_time_missing_def end_time_value_def Let_def)
  next
    case (PDict e)
    with \<open>v = PDict d\<close> show ?thesis
      by (auto simp: spec_keep_def end_time_missing_def end_time_value_def Let_def)
  qed
qed

text \<open>One round of the loop that ends without an exception.\<close>

lemma archive_loop_step:
  assumes "archive_loop L c ((pid, pd) # rest) a n = (None, ps', a', n')"
  shows "\<exists>rest' a1.
           ps' = (pid, with_history pd (filter (keep_visit L c) (history pd))) # rest' \<and>
           (\<forall>vh. map_of pd ''visit_history'' = Some vh \<longrightarrow> py_iter vh = Inr (history pd)) \<and>
           (if filter (\<lambda>v. \<not> keep_visit L c v) (history pd) = [] then a1 = a
            else \<exists>x. extend_archive a pid (filter (\<lambda>v. \<not> keep_visit L c v) (history pd)) = Inr x
                     \<and> a1 = Some x) \<and>
           archive_loop L c rest a1 (n + length (filter (\<lambda>v. \<not> keep_visit L c v) (history pd)))
             = (None, rest', a', n')"
proof (cases "map_of pd ''visit_history''")
  case None
  with assms show ?thesis
    by (auto simp: history_def with_history_def split: prod.splits)
next
  case (Some vh)
  show ?thesis
  proof (cases "py_iter vh")
    case (Inl e)
    with Some assms show ?thesis by simp
  next
    case (Inr visits)
    then have h: "history pd = visits" using Some by (simp add: history_def)
    show ?thesis
    proof (cases "filter (\<lambda>v. \<not> keep_visit L c v) visits = []")
      case True
      with Some Inr h assms show ?thesis
        by (auto simp: with_history_def Let_def split: prod.splits)
    next
      case False
      with Some Inr h assms show ?thesis
        by (auto simp: with_history_def Let_def split: prod.splits sum.splits)
    qed
  qed
qed

lemma archive_loop_patients:
  "archive_loop L c ps a n = (None, ps', a', n') \<Longrightarrow>
   ps' = map (\<lambda>(pid, pd). (pid, with_history pd (filter (keep_visit L c) (history pd)))) ps"
proof (induction ps arbitrary: a n ps' a' n')
  case Nil
  then show ?case by simp
next
  case (Cons p ps)
  obtain pid pd where p: "p = (pid, pd)" by (cases p)
  from archive_loop_step [OF Cons.prems [unfolded p]] Cons.IH p show ?case by auto
qed

lemma archive_loop_iterable:
  "archive_loop L c ps a n = (None, ps', a', n') \<Longrightarrow> (pid, pd) \<in> set ps \<Longrightarrow>
   map_of pd ''visit_history'' = Some vh \<Longrightarrow> py_iter vh = Inr (history pd)"
proof (induction ps arbitrary: a n ps' a' n')
  case Nil
  then show ?case by simp
next
  case (Cons p ps)
  obtain pid' pd' where p: "p = (pid', pd')" by (cases p)
  from archive_loop_step [OF Cons.prems(1) [unfolded p]] Cons.IH Cons.prems(2,3) p
  show ?case by auto
qed

lemma archive_loop_count:
  "archive_loop L c ps a n = (None, ps', a', n') \<Longrightarrow>
   n' = n + (\<Sum>(pid, pd)\<leftarrow>ps. length (filter (\<lambda>v. \<not> keep_visit L c v) (history pd)))"
proof (induction ps arbitrary: a n ps' a' n')
  case Nil
  then show ?case by simp
next
  case (Cons p ps)
  obtain pid pd where p: "p = (pid, pd)" by (cases p)
  from archive_loop_step [OF Cons.prems [unfolded p]] obtain rest' a1 where
    "archive_loop L c ps a1 (n + length (filter (\<lambda>v. \<not> keep_visit L c v) (history pd)))
       = (None, rest', a', n')"
    by blast
  from Cons.IH [OF this] p show ?case by simp
qed

lemma bucket_extend_archive:
  assumes "extend_archive a pid arch = Inr x"
  shows "\<exists>prior. (bucket a pid = None \<and> prior = [] \<or> bucket a pid = Some (PList prior)) \<and>
           (\<forall>k. bucket (Some x) k = (if py_eq pid k then Some (PList (prior @ arch)) else bucket a k))"
  using assms
  by (auto simp: extend_archive_def bucket_def Let_def dict_get_dict_set
           split: option.splits pyval.splits)

lemma bucket_cong: "py_eq k k' \<Longrightarrow> bucket a k = bucket a k'"
  by (simp add: bucket_def dict_get_cong)

lemma archive_loop_buckets:
  "archive_loop L c ps a n = (None, ps', a', n') \<Longrightarrow>
   (let olds = concat (map (\<lambda>(pid, pd). filter (\<lambda>v. \<not> keep_visit L c v) (history pd))
                 (entries_for ps k))
    in if olds = [] then bucket a' k = bucket a k
       else \<exists>prior. (bucket a k = None \<and> prior = [] \<or> bucket a k = Some (PList prior)) \<and>
                    bucket a' k = Some (PList (prior @ olds)))"
proof (induction ps arbitrary: a n ps' a' n')
  case Nil
  then show ?case by (simp add: entries_for_def)
next
  case (Cons p ps)
  obtain pid pd where p: "p = (pid, pd)" by (cases p)
  define arch where "arch = filter (\<lambda>v. \<not> keep_visit L c v) (history pd)"
  define rest_olds where
    "rest_olds = concat (map (\<lambda>(pid, pd). filter (\<lambda>v. \<not> keep_visit L c v) (history pd))
                   (entries_for ps k))"
  from archive_loop_step [OF Cons.prems [unfolded p]] obtain rest' a1 where
    a1: "if arch = [] then a1 = a else \<exists>x. extend_archive a pid arch = Inr x \<and> a1 = Some x"
    and rest: "archive_loop L c ps a1 (n + length arch) = (None, rest', a', n')"
    unfolding arch_def by blast
  from Cons.IH [OF rest] have ih:
    "if rest_olds = [] then bucket a' k = bucket a1 k
     else \<exists>prior. (bucket a1 k = None \<and> prior = [] \<or> bucket a1 k = Some (PList prior)) \<and>
                  bucket a' k = Some (PList (prior @ rest_olds))"
    unfolding rest_olds_def Let_def .
  show ?case
  proof (cases "py_eq pid k \<and> arch \<noteq> []")
    case False
    have same: "bucket a1 k = bucket a k"
    proof (cases "arch = []")
      case True
      with a1 show ?thesis by simp
    next
      case False
      with a1 obtain x where "extend_archive a pid arch = Inr x" and "a1 = Some x" by auto
      with bucket_extend_archive [of a pid arch x] \<open>\<not> (py_eq pid k \<and> arch \<noteq> [])\<close> False
      show ?thesis by auto
    qed
    have olds: "concat (map (\<lambda>(pid, pd). filter (\<lambda>v. \<not> keep_visit L c v) (history pd))
                 (entries_for (p # ps) k)) = rest_olds"
      using False by (auto simp: p entries_for_Cons rest_olds_def arch_def)
    show ?thesis
      unfolding Let_def olds using ih same by (auto split: if_splits)
  next
    case True
    then have eq: "py_eq pid k" and ne: "arch \<noteq> []" by simp_all
    from a1 ne obtain x where x: "extend_archive a pid arch = Inr x" and "a1 = Some x" by auto
    from bucket_extend_archive [OF x] obtain prior where
      prior: "bucket a pid = None \<and> prior = [] \<or> bucket a pid = Some (PList prior)"
      and b1: "bucket a1 k = Some (PList (prior @ arch))"
      using eq \<open>a1 = Some x\<close> by auto
    have prior': "bucket a k = None \<and> prior = [] \<or> bucket a k = Some (PList prior)"
      using prior bucket_cong [OF eq, of a] by simp
    have olds: "concat (map (\<lambda>(pid, pd). filter (\<lambda>v. \<not> keep_visit L c v) (history pd))
                 (entries_for (p # ps) k)) = arch @ rest_olds"
      using eq by (simp add: p entries_for_Cons rest_olds_def arch_def)
    have "bucket a' k = Some (PList (prior @ arch @ rest_olds))"
      using ih b1 by (auto split: if_splits)
    then show ?thesis
      unfolding Let_def olds using prior' ne by auto
  qed
qed

lemma timedelta_days: "timedelta day_us (VInt days) = Inr delta \<Longrightarrow> delta = days * day_us"
  by (auto split: if_splits)

lemma spec_keep_naive:
  assumes "\<not> end_time_missing v" and "end_time_value L v = Some (Naive t)"
  shows "spec_keep L (Naive c) v \<longleftrightarrow> c < t"
  using assms by (simp add: spec_keep_def)

lemma set_dict_set: "(k', b) \<in> set (dict_set d k v) \<Longrightarrow> b = v \<or> (k', b) \<in> set d"
  by (induction d) (auto split: if_splits)

lemma archive_typed_dict_set:
  assumes "archive_typed a"
  shows "archive_typed (Some (dict_set (case a of None \<Rightarrow> [] | Some a \<Rightarrow> a) pid (PList xs)))"
  unfolding archive_typed_def
proof (clarsimp)
  fix k b
  assume "(k, b) \<in> set (dict_set (case a of None \<Rightarrow> [] | Some a \<Rightarrow> a) pid (PList xs))"
  from set_dict_set [OF this] have "b = PList xs \<or> (k, b) \<in> set (case a of None \<Rightarrow> [] | Some a \<Rightarrow> a)" .
  then show "case b of PList xs \<Rightarrow> True | _ \<Rightarrow> False"
    using assms by (auto simp: archive_typed_def)
qed

lemma extend_archive_typed:
  assumes "archive_typed a"
  shows "\<exists>x. extend_archive a pid arch = Inr x \<and> archive_typed (Some x)"
proof (cases "dict_get (case a of None \<Rightarrow> [] | Some a \<Rightarrow> a) pid")
  case None
  then show ?thesis
    using archive_typed_dict_set [OF assms] by (simp add: extend_archive_def)
next
  case (Some b)
  from dict_get_in_set [OF Some] obtain k' where
    "(k', b) \<in> set (case a of None \<Rightarrow> [] | Some a \<Rightarrow> a)" by blast
  with assms have "case b of PList xs \<Rightarrow> True | other \<Rightarrow> False"
    unfolding archive_typed_def by blast
  then obtain xs where b: "b = PList xs"
    by (cases b) simp_all
  with Some show ?thesis
    using archive_typed_dict_set [OF assms] by (simp add: extend_archive_def)
qed

lemma archive_loop_total:
  assumes "\<forall>(pid, pd) \<in> set ps.
             case map_of pd ''visit_history'' of
               None \<Rightarrow> True
             | Some vh \<Rightarrow> (case py_iter vh of Inl e \<Rightarrow> False | Inr visits \<Rightarrow> True)"
      and "archive_typed a"
  shows "\<exists>ps' a' n'. archive_loop L c ps a n = (None, ps', a', n')"
  using assms
proof (induction ps arbitrary: a n)
  case Nil
  then show ?case by simp
next
  case (Cons p ps)
  obtain pid pd where p: "p = (pid, pd)" by (cases p)
  from Cons.prems(1) have rest: "\<forall>(pid, pd) \<in> set ps.
             case map_of pd ''visit_history'' of
               None \<Rightarrow> True
             | Some vh \<Rightarrow> (case py_iter vh of Inl e \<Rightarrow> False | Inr visits \<Rightarrow> True)"
    by simp
  show ?case
  proof (cases "map_of pd ''visit_history''")
    case None
    from Cons.IH [OF rest Cons.prems(2), of n] obtain ps' a' n' where
      "archive_loop L c ps a n = (None, ps', a', n')" by blast
    with None p show ?thesis by simp
  next
    case (Some vh)
    with Cons.prems(1) p obtain visits where it: "py_iter vh = Inr visits"
      by (auto split: sum.splits)
    define arch where "arch = filter (\<lambda>v. \<not> keep_visit L c v) visits"
    show ?thesis
    proof (cases "arch = []")
      case True
      from Cons.IH [OF rest Cons.prems(2), of "n + length arch"] obtain ps' a' n' where
        "archive_loop L c ps a (n + length arch) = (None, ps', a', n')" by blast
      with Some it True p show ?thesis by (simp add: arch_def Let_def)
    next
      case False
      from extend_archive_typed [OF Cons.prems(2), of pid arch] obtain x where
        x: "extend_archive a pid arch = Inr x" and tx: "archive_typed (Some x)" by blast
      from Cons.IH [OF rest tx, of "n + length arch"] obtain ps' a' n' where
        "archive_loop L c ps (Some x) (n + length arch) = (None, ps', a', n')" by blast
      with Some it False x p show ?thesis by (simp add: arch_def Let_def)
    qed
  qed
qed

text \<open>On a well-typed configuration the call succeeds whenever the cutoff can be computed.\<close>

lemma archive_old_visits_succeeds:
  assumes "cfg_typed cfg"
      and "timedelta day_us (VInt days) = Inr delta"
      and "dt_add (Naive now) (- delta) = Inr cutoff"
  shows "\<exists>n cfg'. archive_old_visits L now days cfg = (Inr n, cfg')"
proof -
  from assms(1) archive_loop_total [of "cfg_patients cfg" "archived_visits cfg" L cutoff 0]
  obtain ps' a' n' where
    "archive_loop L cutoff (cfg_patients cfg) (archived_visits cfg) 0 = (None, ps', a', n')"
    by (auto simp: cfg_typed_def)
  with assms(2,3) show ?thesis by (simp add: archive_old_visits_def)
qed

lemma archive_old_visits_no_cutoff:
  assumes "\<forall>delta cutoff. timedelta day_us (VInt days) = Inr delta \<longrightarrow>
             dt_add (Naive now) (- delta) \<noteq> Inr cutoff"
  shows "\<exists>e. archive_old_visits L now days cfg = (Inl e, cfg)"
  using assms by (auto simp: archive_old_visits_def split: sum.splits)

lemma archive_loop_noop:
  assumes "\<forall>(pid, pd) \<in> set ps. \<forall>vh. map_of pd ''visit_history'' = Some vh \<longrightarrow>
             (\<exists>vs. vh = PList vs \<and> (\<forall>v \<in> set vs. keep_visit L c v))"
  shows "archive_loop L c ps a n = (None, ps, a, n)"
  using assms
proof (induction ps)
  case Nil
  then show ?case by simp
next
  case (Cons p ps)
  obtain pid pd where p: "p = (pid, pd)" by (cases p)
  from Cons.prems have rest: "archive_loop L c ps a n = (None, ps, a, n)"
    by (intro Cons.IH) auto
  show ?case
  proof (cases "map_of pd ''visit_history''")
    case None
    with rest p show ?thesis by simp
  next
    case (Some vh)
    with Cons.prems p obtain vs where vs: "vh = PList vs" and keep: "\<forall>v \<in> set vs. keep_visit L c v"
      by auto
    have f1: "filter (keep_visit L c) vs = vs" and f2: "filter (\<lambda>v. \<not> keep_visit L c v) vs = []"
      using keep by (simp_all add: filter_empty_conv)
    have u: "AList.update ''visit_history'' (PList vs) pd = pd"
      using Some vs by (simp add: update_triv)
    show ?thesis
      using Some vs rest p by (simp add: f1 f2 u)
  qed
qed

lemma with_history_lookup:
  "map_of (with_history pd vs) ''visit_history'' = Some vh \<Longrightarrow> vh = PList vs"
  by (auto simp: with_history_def update_conv' split: option.splits)

lemma with_history_history:
  "map_of (with_history pd vs) ''visit_history'' = Some vh \<Longrightarrow> history (with_history pd vs) = vs"
  by (auto simp: with_history_def history_def update_conv' split: option.splits)

lemma with_history_list:
  "map_of (with_history pd vs) ''visit_history'' = Some vh \<Longrightarrow>
   vh = PList (history (with_history pd vs))"
  using with_history_lookup with_history_history by metis

text \<open>What a successful call has done.\<close>

lemma archive_old_visits_result:
  assumes "archive_old_visits L now days cfg = (Inr n, cfg')"
      and "dict_ok (cfg_patients cfg)"
  shows "\<exists>cutoff_date.
     cutoff_date = Naive (now - days * day_us) \<and>
     cfg_patients cfg' =
       map (\<lambda>(pid, pd). (pid, with_history pd (filter (spec_keep L cutoff_date) (history pd))))
         (cfg_patients cfg) \<and>
     n = (\<Sum>(pid, pd)\<leftarrow>cfg_patients cfg.
            length (filter (\<lambda>v. \<not> spec_keep L cutoff_date v) (history pd))) \<and>
     (\<forall>(pid, pd) \<in> set (cfg_patients cfg).
        let old = filter (\<lambda>v. \<not> spec_keep L cutoff_date v) (history pd)
        in if old = []
           then bucket (archived_visits cfg') pid = bucket (archived_visits cfg) pid
           else \<exists>prior.
                  (bucket (archived_visits cfg) pid = None \<and> prior = [] \<or>
                   bucket (archived_visits cfg) pid = Some (PList prior)) \<and>
                  bucket (archived_visits cfg') pid = Some (PList (prior @ old))) \<and>
     (\<forall>k. dict_get (cfg_patients cfg) k = None \<longrightarrow>
        bucket (archived_visits cfg') k = bucket (archived_visits cfg) k) \<and>
     (\<forall>v t. \<not> end_time_missing v \<and> end_time_value L v = Some (Naive t) \<longrightarrow>
        (spec_keep L cutoff_date v \<longleftrightarrow> now - days * day_us < t))"
proof -
  define c where "c = Naive (now - days * day_us)"
  have k: "keep_visit L c = spec_keep L c"
    by (rule ext) (rule keep_visit_spec)
  from assms(1) obtain delta cutoff where
    d: "timedelta day_us (VInt days) = Inr delta"
    and cut: "dt_add (Naive now) (- delta) = Inr cutoff"
    by (auto simp: archive_old_visits_def split: sum.splits)
  have "cutoff = c"
    using cut timedelta_days [OF d] by (auto simp: c_def split: if_splits)
  with assms(1) d cut have loop:
    "archive_loop L c (cfg_patients cfg) (archived_visits cfg) 0
       = (None, cfg_patients cfg', archived_visits cfg', n)"
    by (auto simp: archive_old_visits_def split: prod.splits option.splits)
  have 1: "cfg_patients cfg' =
       map (\<lambda>(pid, pd). (pid, with_history pd (filter (spec_keep L c) (history pd))))
         (cfg_patients cfg)"
    using archive_loop_patients [OF loop] by (simp add: k)
  have 2: "n = (\<Sum>(pid, pd)\<leftarrow>cfg_patients cfg.
            length (filter (\<lambda>v. \<not> spec_keep L c v) (history pd)))"
    using archive_loop_count [OF loop] by (simp add: k)
  have 3: "\<forall>(pid, pd) \<in> set (cfg_patients cfg).
        let old = filter (\<lambda>v. \<not> spec_keep L c v) (history pd)
        in if old = []
           then bucket (archived_visits cfg') pid = bucket (archived_visits cfg) pid
           else \<exists>prior.
                  (bucket (archived_visits cfg) pid = None \<and> prior = [] \<or>
                   bucket (archived_visits cfg) pid = Some (PList prior)) \<and>
                  bucket (archived_visits cfg') pid = Some (PList (prior @ old))"
  proof (intro ballI, clarify)
    fix pid pd
    assume mem: "(pid, pd) \<in> set (cfg_patients cfg)"
    have e: "entries_for (cfg_patients cfg) pid = [(pid, pd)]"
      using assms(2) mem by (rule dict_ok_entries_for)
    from archive_loop_buckets [OF loop, of pid]
    show "let old = filter (\<lambda>v. \<not> spec_keep L c v) (history pd)
        in if old = []
           then bucket (archived_visits cfg') pid = bucket (archived_visits cfg) pid
           else \<exists>prior.
                  (bucket (archived_visits cfg) pid = None \<and> prior = [] \<or>
                   bucket (archived_visits cfg) pid = Some (PList prior)) \<and>
                  bucket (archived_visits cfg') pid = Some (PList (prior @ old))"
      by (simp add: e k Let_def)
  qed
  have 4: "\<forall>k. dict_get (cfg_patients cfg) k = None \<longrightarrow>
        bucket (archived_visits cfg') k = bucket (archived_visits cfg) k"
  proof (intro allI impI)
    fix k
    assume "dict_get (cfg_patients cfg) k = None"
    then have "entries_for (cfg_patients cfg) k = []" by (rule entries_for_None)
    with archive_loop_buckets [OF loop, of k]
    show "bucket (archived_visits cfg') k = bucket (archived_visits cfg) k" by simp
  qed
  have 5: "\<forall>v t. \<not> end_time_missing v \<and> end_time_value L v = Some (Naive t) \<longrightarrow>
        (spec_keep L c v \<longleftrightarrow> now - days * day_us < t)"
    by (simp add: c_def spec_keep_naive)
  from 1 2 3 4 5 show ?thesis unfolding c_def by blast
qed

subsection \<open>Claim C7\<close>

text \<open>
  C7 (as stated): \<open>archive_old_visits\<close> keeps the visits whose end time is missing,
  unparsable or newer than now minus the cutoff days, and archives all other visits.
  The statement fails for a visit whose end time parses to a timezone-aware timestamp:
  comparing it with the naive cutoff raises \<^verbatim>\<open>TypeError\<close>, and the handler of the loop
  keeps the visit, however old it is.
\<close>

theorem archive_old_visits_counterexample:
  "archive_old_visits std_lib jan10_0900 90 cfg_offset_visit = (Inr 0, cfg_offset_visit) \<and>
   \<not> end_time_missing visit_with_offset \<and>
   end_time_value std_lib visit_with_offset = Some (Aware 63713469600000000 0) \<and>
   \<not> stated_keep std_lib (Naive (jan10_0900 - 90 * day_us)) visit_with_offset"
  by code_simp

text \<open>
  C7 (amended): on patients with distinct identifiers, \<open>archive_old_visits\<close> succeeds
  whenever the configuration is well typed and the cutoff date can be computed; and
  when it succeeds, every patient's visit history becomes the list, in order, of its visits
  whose end time is missing, unparsable, not comparable with the cutoff, or newer than
  now minus the cutoff days; the other visits of the patient are appended to the bucket
  of the patient's identifier behind what the bucket held (a bucket is created when
  there was none); the buckets of other identifiers stay as they are; and the result is
  the number of visits archived. A visit with an end time is kept exactly when that
  time is later than the cutoff: of two visits that ended 100 and 10 days ago, 90
  cutoff days archive the first and keep the second.
\<close>

theorem archive_old_visits_partition:
  assumes "dict_ok (cfg_patients cfg)"
  shows "(cfg_typed cfg \<and>
          (\<exists>delta cutoff. timedelta day_us (VInt days) = Inr delta \<and>
                           dt_add (Naive now) (- delta) = Inr cutoff)
            \<longrightarrow> (\<exists>n cfg'. archive_old_visits L now days cfg = (Inr n, cfg'))) \<and>
         (\<forall>n cfg'. archive_old_visits L now days cfg = (Inr n, cfg') \<longrightarrow>
            (\<exists>cutoff_date.
                 cutoff_date = Naive (now - days * day_us) \<and>
                 cfg_patients cfg' =
                   map (\<lambda>(pid, pd). (pid, with_history pd (filter (spec_keep L cutoff_date) (history pd))))
                     (cfg_patients cfg) \<and>
                 n = (\<Sum>(pid, pd)\<leftarrow>cfg_patients cfg.
                        length (filter (\<lambda>v. \<not> spec_keep L cutoff_date v) (history pd))) \<and>
                 (\<forall>(pid, pd) \<in> set (cfg_patients cfg).
                    let old = filter (\<lambda>v. \<not> spec_keep L cutoff_date v) (history pd)
                    in if old = []
                       then bucket (archived_visits cfg') pid = bucket (archived_visits cfg) pid
                       else \<exists>prior.
                              (bucket (archived_visits cfg) pid = None \<and> prior = [] \<or>
                               bucket (archived_visits cfg) pid = Some (PList prior)) \<and>
                              bucket (archived_visits cfg') pid = Some (PList (prior @ old))) \<and>
                 (\<forall>k. dict_get (cfg_patients cfg) k = None \<longrightarrow>
                    bucket (archived_visits cfg') k = bucket (archived_visits cfg) k) \<and>
                 (\<forall>v t. \<not> end_time_missing v \<and> end_time_value L v = Some (Naive t) \<longrightarrow>
                    (spec_keep L cutoff_date v \<longleftrightarrow> now - days * day_us < t))))"
proof (intro conjI impI allI)
  assume "cfg_typed cfg \<and>
          (\<exists>delta cutoff. timedelta day_us (VInt days) = Inr delta \<and>
                           dt_add (Naive now) (- delta) = Inr cutoff)"
  then show "\<exists>n cfg'. archive_old_visits L now days cfg = (Inr n, cfg')"
    using archive_old_visits_succeeds by blast
next
  fix n cfg'
  assume "archive_old_visits L now days cfg = (Inr n, cfg')"
  from archive_old_visits_result [OF this assms]
  show "\<exists>cutoff_date.
             cutoff_date = Naive (now - days * day_us) \<and>
             cfg_patients cfg' =
               map (\<lambda>(pid, pd). (pid, with_history pd (filter (spec_keep L cutoff_date) (history pd))))
                 (cfg_patients cfg) \<and>
             n = (\<Sum>(pid, pd)\<leftarrow>cfg_patients cfg.
                    length (filter (\<lambda>v. \<not> spec_keep L cutoff_date v) (history pd))) \<and>
             (\<forall>(pid, pd) \<in> set (cfg_patients cfg).
                let old = filter (\<lambda>v. \<not> spec_keep L cutoff_date v) (history pd)
                in if old = []
                   then bucket (archived_visits cfg') pid = bucket (archived_visits cfg) pid
                   else \<exists>prior.
                          (bucket (archived_visits cfg) pid = None \<and> prior = [] \<or>
                           bucket (archived_visits cfg) pid = Some (PList prior)) \<and>
                          bucket (archived_visits cfg') pid = Some (PList (prior @ old))) \<and>
             (\<forall>k. dict_get (cfg_patients cfg) k = None \<longrightarrow>
                bucket (archived_visits cfg') k = bucket (archived_visits cfg) k) \<and>
             (\<forall>v t. \<not> end_time_missing v \<and> end_time_value L v = Some (Naive t) \<longrightarrow>
                (spec_keep L cutoff_date v \<longleftrightarrow> now - days * day_us < t))" .
qed

theorem archive_old_visits_partition_witness:
  "dict_ok (cfg_patients cfg_two_visits) \<and>
   cfg_typed cfg_two_visits \<and>
   timedelta day_us (VInt 90) = Inr (90 * day_us) \<and>
   dt_add (Naive jan10_0900) (- (90 * day_us)) = Inr (Naive (jan10_0900 - 90 * day_us)) \<and>
   archive_old_visits std_lib jan10_0900 90 cfg_two_visits = (Inr 1, cfg_two_visits_archived) \<and>
   \<not> end_time_missing visit_100_days \<and>
   end_time_value std_lib visit_100_days = Some (Naive (jan10_0900 - 100 * day_us)) \<and>
   \<not> spec_keep std_lib (Naive (jan10_0900 - 90 * day_us)) visit_100_days \<and>
   \<not> end_time_missing visit_10_days \<and>
   end_time_value std_lib visit_10_days = Some (Naive (jan10_0900 - 10 * day_us)) \<and>
   spec_keep std_lib (Naive (jan10_0900 - 90 * day_us)) visit_10_days"
proof -
  have h1: "archive_old_visits std_lib jan10_0900 90 cfg_two_visits = (Inr 1, cfg_two_visits_archived)"
    by code_simp
  have h2: "dict_ok (cfg_patients cfg_two_visits)" by code_simp
  have h3: "cfg_typed cfg_two_visits \<and>
            timedelta day_us (VInt 90) = Inr (90 * day_us) \<and>
            dt_add (Naive jan10_0900) (- (90 * day_us)) = Inr (Naive (jan10_0900 - 90 * day_us))"
    by code_simp
  have e1: "\<not> end_time_missing visit_100_days \<and>
            end_time_value std_lib visit_100_days = Some (Naive (jan10_0900 - 100 * day_us))"
    by code_simp
  have e2: "\<not> end_time_missing visit_10_days \<and>
            end_time_value std_lib visit_10_days = Some (Naive (jan10_0900 - 10 * day_us))"
    by code_simp
  from archive_old_visits_partition [OF h2, where L = std_lib and days = 90 and now = jan10_0900] h1
  have r: "\<forall>v t. \<not> end_time_missing v \<and> end_time_value std_lib v = Some (Naive t) \<longrightarrow>
        (spec_keep std_lib (Naive (jan10_0900 - 90 * day_us)) v \<longleftrightarrow> jan10_0900 - 90 * day_us < t)"
    by blast
  have c1: "\<not> spec_keep std_lib (Naive (jan10_0900 - 90 * day_us)) visit_100_days"
    using r e1 by (simp add: day_us_def)
  have c2: "spec_keep std_lib (Naive (jan10_0900 - 90 * day_us)) visit_10_days"
    using r e2 by (simp add: day_us_def)
  from h1 h2 h3 e1 e2 c1 c2 show ?thesis by blast
qed

text \<open>
  After a run that succeeded, a second run at the same time, or at a later time at which
  no visit has crossed the cutoff, archives nothing and changes nothing.
\<close>

lemma archive_old_visits_second_run:
  assumes "archive_old_visits L now days cfg = (Inr n, cfg')"
  shows "archive_old_visits L now days cfg' = (Inr 0, cfg') \<and>
         (dt_add (Naive now') (- (days * day_us)) = Inr cutoff' \<and> no_visit_crosses L cutoff' cfg'
            \<longrightarrow> archive_old_visits L now' days cfg' = (Inr 0, cfg'))"
proof -
  define c where "c = Naive (now - days * day_us)"
  from assms obtain delta cutoff where
    d: "timedelta day_us (VInt days) = Inr delta"
    and cut: "dt_add (Naive now) (- delta) = Inr cutoff"
    by (auto simp: archive_old_visits_def split: sum.splits)
  have delta: "delta = days * day_us" using d by (rule timedelta_days)
  have "cutoff = c"
    using cut delta by (auto simp: c_def split: if_splits)
  with assms d cut have loop:
    "archive_loop L c (cfg_patients cfg) (archived_visits cfg) 0
       = (None, cfg_patients cfg', archived_visits cfg', n)"
    by (auto simp: archive_old_visits_def split: prod.splits option.splits)
  have shape: "cfg_patients cfg' =
       map (\<lambda>(pid, pd). (pid, with_history pd (filter (keep_visit L c) (history pd))))
         (cfg_patients cfg)"
    using archive_loop_patients [OF loop] .
  have lists: "\<forall>(pid, pd) \<in> set (cfg_patients cfg'). \<forall>vh.
                 map_of pd ''visit_history'' = Some vh \<longrightarrow> vh = PList (history pd)"
    unfolding shape by (auto dest: with_history_list)
  have kept: "\<forall>(pid, pd) \<in> set (cfg_patients cfg'). \<forall>vh.
                 map_of pd ''visit_history'' = Some vh \<longrightarrow> (\<forall>v \<in> set (history pd). keep_visit L c v)"
    unfolding shape by (auto dest: with_history_history)
  have noop: "archive_loop L k (cfg_patients cfg') (archived_visits cfg') 0
                = (None, cfg_patients cfg', archived_visits cfg', 0)"
    if "\<forall>(pid, pd) \<in> set (cfg_patients cfg'). \<forall>vh.
          map_of pd ''visit_history'' = Some vh \<longrightarrow> (\<forall>v \<in> set (history pd). keep_visit L k v)" for k
    using that lists by (intro archive_loop_noop) fastforce
  have again: "archive_old_visits L now days cfg' = (Inr 0, cfg')"
    using d cut \<open>cutoff = c\<close> noop [OF kept] by (simp add: archive_old_visits_def)
  have later: "archive_old_visits L now' days cfg' = (Inr 0, cfg')"
    if c': "dt_add (Naive now') (- (days * day_us)) = Inr cutoff'"
      and nc: "no_visit_crosses L cutoff' cfg'"
  proof -
    have "\<forall>(pid, pd) \<in> set (cfg_patients cfg'). \<forall>vh.
          map_of pd ''visit_history'' = Some vh \<longrightarrow> (\<forall>v \<in> set (history pd). keep_visit L cutoff' v)"
      using nc by (auto simp: no_visit_crosses_def keep_visit_spec)
    from noop [OF this] d c' show ?thesis
      by (simp add: archive_old_visits_def delta)
  qed
  from again later show ?thesis by blast
qed

subsection \<open>Claim C8\<close>

text \<open>
  C8 (as stated): for every state, a second run of \<open>archive_old_visits\<close> with the same
  cutoff archives zero visits and changes no visit history and no archive bucket. The
  statement fails when the archive bucket of a patient is not a list: the first run
  empties that patient's visit history, raises \<^verbatim>\<open>AttributeError\<close> on the bucket and
  returns an error before it reaches the next patient, whose old visit the second run
  then archives.
\<close>

theorem archive_old_visits_twice_counterexample:
  "archive_old_visits std_lib jan10_0900 90 cfg_none_bucket
     = (Inl (Error AttributeError), cfg_none_bucket_failed) \<and>
   archive_old_visits std_lib jan10_0900 90 cfg_none_bucket_failed
     = (Inr 1, cfg_none_bucket_rerun) \<and>
   history (the (dict_get (cfg_patients cfg_none_bucket_failed) (VStr ''P0002''))) = [visit_100_days] \<and>
   history (the (dict_get (cfg_patients cfg_none_bucket_rerun) (VStr ''P0002''))) = [] \<and>
   bucket (archived_visits cfg_none_bucket_failed) (VStr ''P0002'') = None \<and>
   bucket (archived_visits cfg_none_bucket_rerun) (VStr ''P0002'') = Some (PList [visit_100_days]) \<and>
   \<not> cfg_typed cfg_none_bucket"
  by code_simp

text \<open>
  C8 (amended): archiving is idempotent on well-typed configurations, those whose visit
  histories can be iterated and whose archive buckets are lists. For every such
  configuration, either the cutoff cannot be computed and \<open>archive_old_visits\<close> fails
  without changing anything, or the first run succeeds and a second run with the same
  cutoff days, at the same time or at a later time at which no visit has crossed the
  cutoff, archives zero visits and leaves every visit history and every archive bucket
  unchanged.
\<close>

theorem archive_old_visits_idempotent:
  assumes "cfg_typed cfg"
  shows "(\<exists>e. archive_old_visits L now days cfg = (Inl e, cfg)) \<or>
         (\<exists>n cfg'.
            archive_old_visits L now days cfg = (Inr n, cfg') \<and>
            archive_old_visits L now days cfg' = (Inr 0, cfg') \<and>
            (\<forall>now' cutoff'.
               dt_add (Naive now') (- (days * day_us)) = Inr cutoff' \<and>
               no_visit_crosses L cutoff' cfg'
                 \<longrightarrow> archive_old_visits L now' days cfg' = (Inr 0, cfg')))"
proof (cases "\<exists>delta cutoff. timedelta day_us (VInt days) = Inr delta \<and>
                dt_add (Naive now) (- delta) = Inr cutoff")
  case False
  then have "\<exists>e. archive_old_visits L now days cfg = (Inl e, cfg)"
    by (intro archive_old_visits_no_cutoff) blast
  then show ?thesis ..
next
  case True
  then obtain delta cutoff where "timedelta day_us (VInt days) = Inr delta"
    and "dt_add (Naive now) (- delta) = Inr cutoff"
    by blast
  from archive_old_visits_succeeds [OF assms this] obtain n cfg' where
    first: "archive_old_visits L now days cfg = (Inr n, cfg')"
    by blast
  from archive_old_visits_second_run [OF first] first show ?thesis by blast
qed

theorem archive_old_visits_idempotent_witness:
  "cfg_typed cfg_two_visits \<and>
   archive_old_visits std_lib jan10_0900 90 cfg_two_visits = (Inr 1, cfg_two_visits_archived) \<and>
   archive_old_visits std_lib jan10_0900 90 cfg_two_visits_archived = (Inr 0, cfg_two_visits_archived) \<and>
   dt_add (Naive (jan10_0900 + day_us)) (- (90 * day_us)) = Inr (Naive (jan10_0900 - 89 * day_us)) \<and>
   no_visit_crosses std_lib (Naive (jan10_0900 - 89 * day_us)) cfg_two_visits_archived \<and>
   archive_old_visits std_lib (jan10_0900 + day_us) 90 cfg_two_visits_archived
     = (Inr 0, cfg_two_visits_archived)"
proof -
  have h0: "cfg_typed cfg_two_visits" by code_simp
  have h1: "archive_old_visits std_lib jan10_0900 90 cfg_two_visits = (Inr 1, cfg_two_visits_archived)"
    by code_simp
  have h2: "dt_add (Naive (jan10_0900 + day_us)) (- (90 * day_us)) = Inr (Naive (jan10_0900 - 89 * day_us))"
    by code_simp
  have h3: "no_visit_crosses std_lib (Naive (jan10_0900 - 89 * day_us)) cfg_two_visits_archived"
    by code_simp
  from archive_old_visits_idempotent [OF h0, of std_lib jan10_0900 90] h1
  have c: "archive_old_visits std_lib jan10_0900 90 cfg_two_visits_archived
             = (Inr 0, cfg_two_visits_archived) \<and>
           (\<forall>now' cutoff'.
               dt_add (Naive now') (- (90 * day_us)) = Inr cutoff' \<and>
               no_visit_crosses std_lib cutoff' cfg_two_visits_archived
                 \<longrightarrow> archive_old_visits std_lib now' 90 cfg_two_visits_archived
                       = (Inr 0, cfg_two_visits_archived))"
    by auto
  with h2 h3 have "archive_old_visits std_lib (jan10_0900 + day_us) 90 cfg_two_visits_archived
     = (Inr 0, cfg_two_visits_archived)"
    by blast
  with h0 h1 h2 h3 c show ?thesis by blast
qed

section \<open>Properties of the test results\<close>

lemma py_sort_mset: "py_sort f xs = Inr ys \<Longrightarrow> mset ys = mset xs"
  by (auto simp: py_sort_def split: if_splits)

lemma py_sort_reverse_mset: "py_sort_reverse f xs = Inr ys \<Longrightarrow> mset ys = mset xs"
  by (auto simp: py_sort_reverse_def split: sum.splits dest: py_sort_mset)

lemma py_sort_dates:
  assumes "(\<forall>p \<in> set xs. \<exists>t. pt_date p = Naive t) \<or> (\<forall>p \<in> set xs. \<exists>t off. pt_date p = Aware t off)"
  shows "py_sort (\<lambda>p. VDateTime (pt_date p)) xs
           = Inr (sort_key (\<lambda>p. num_key (VDateTime (pt_date p))) xs)"
proof (cases "length xs \<le> 1")
  case True
  then have "xs = [] \<or> (\<exists>x. xs = [x])"
    by (cases xs) (auto simp: length_Suc_conv)
  then show ?thesis by (auto simp: py_sort_def)
next
  case False
  from assms show ?thesis
  proof
    assume "\<forall>p \<in> set xs. \<exists>t. pt_date p = Naive t"
    then have "\<forall>x \<in> set xs. kind_of (VDateTime (pt_date x)) = KNaive" by auto
    with False show ?thesis by (auto simp: py_sort_def)
  next
    assume a: "\<forall>p \<in> set xs. \<exists>t off. pt_date p = Aware t off"
    then have k: "\<forall>x \<in> set xs. kind_of (VDateTime (pt_date x)) = KAware" by auto
    from False obtain x where "x \<in> set xs" by (cases xs) auto
    with k have "\<not> (\<forall>x \<in> set xs. kind_of (VDateTime (pt_date x)) = KStr)" by auto
    with False k show ?thesis by (simp add: py_sort_def)
  qed
qed

text \<open>Which results become data points, and with which fields.\<close>

lemma numerical_point_Some:
  "numerical_point L float_of result = Some p \<longleftrightarrow>
     py_get result ''value'' VNone \<noteq> VNone \<and>
     float_of (py_get result ''value'' VNone) = Some (pt_value p) \<and>
     py_truthy (py_get result ''test_date'' (VStr '''')) \<and>
     py_fromisoformat L (py_get result ''test_date'' (VStr '''')) = Inr (pt_date p) \<and>
     pt_unit p = py_get result ''unit'' (VStr '''') \<and>
     pt_reference_range p = py_get result ''reference_range'' (VStr '''') \<and>
     pt_id p = py_get result ''id'' (VStr '''')"
  by (cases p) (auto simp: numerical_point_def Let_def split: option.splits sum.splits)

lemma results_by_type_mset:
  assumes "get_test_results_by_type test_results patient_id test_type = Inr rs"
  shows "mset rs =
         mset (filter (\<lambda>result. py_eq (py_get result ''test_name'' VNone) test_type)
                (map (\<lambda>(result_id, result_data). AList.update ''id'' result_id result_data)
                   (case dict_get test_results patient_id of None \<Rightarrow> [] | Some rs \<Rightarrow> rs)))"
  using assms
  by (auto simp: get_test_results_by_type_def get_patient_test_results_def
           split: sum.splits option.splits dest!: py_sort_reverse_mset)

text \<open>
  When the results of the requested type can be listed and the dates of the data points
  are all naive or all aware, the function returns exactly the data points, oldest first.
\<close>

lemma get_numerical_test_results_comparable:
  assumes "get_test_results_by_type test_results patient_id test_type = Inr rs"
      and "pts = List.map_filter (numerical_point L float_of) rs"
      and "(\<forall>p \<in> set pts. \<exists>t. pt_date p = Naive t) \<or>
           (\<forall>p \<in> set pts. \<exists>t off. pt_date p = Aware t off)"
  shows "\<exists>out. get_numerical_test_results L float_of test_results patient_id test_type = Inr out \<and>
           mset out = mset pts \<and>
           sorted (map (\<lambda>p. num_key (VDateTime (pt_date p))) out)"
  using assms(1,2) py_sort_dates [OF assms(3)]
  by (simp add: get_numerical_test_results_def)

subsection \<open>Claim C9\<close>

text \<open>
  C9: \<open>get_numerical_test_results\<close> returns exactly the results of the given type whose
  value parses as a float and whose test date parses, each with the parsed value and
  date, sorted by date, oldest first; other results are left out without an error. The
  closing sort is outside every handler: two results that each give a data point, one
  with a plain date and one with a date that carries a UTC offset, make the call raise
  \<^verbatim>\<open>TypeError\<close>.
\<close>

theorem get_numerical_test_results_mixed_offsets:
  "get_numerical_test_results std_lib digits_float [(VStr ''P0001'', [(VStr ''r1'', glucose_142)])]
      (VStr ''P0001'') (VStr ''Glucose'')
     = Inr [\<lparr>pt_date = Naive 63871459200000000, pt_value = 142, pt_unit = VStr ''mg/dL'',
              pt_reference_range = VStr '''', pt_id = VStr ''r1''\<rparr>] \<and>
   get_numerical_test_results std_lib digits_float [(VStr ''P0001'', [(VStr ''r2'', glucose_offset)])]
      (VStr ''P0001'') (VStr ''Glucose'')
     = Inr [\<lparr>pt_date = Aware 63871401600000000 0, pt_value = 150, pt_unit = VStr ''mg/dL'',
              pt_reference_range = VStr '''', pt_id = VStr ''r2''\<rparr>] \<and>
   get_numerical_test_results std_lib digits_float lab_results_offset
      (VStr ''P0001'') (VStr ''Glucose'')
     = Inl TypeError"
  by code_simp

text \<open>
  The scenario of the specification: the value \<^verbatim>\<open>"142"\<close> is in the trend, the value
  \<^verbatim>\<open>"pending"\<close> of the same test is not.
\<close>

lemma scenario_142_pending:
  "get_numerical_test_results std_lib digits_float lab_results (VStr ''P0001'') (VStr ''Glucose'')
     = Inr [\<lparr>pt_date = Naive 63871286400000000, pt_value = 118, pt_unit = VStr ''mg/dL'',
              pt_reference_range = VStr '''', pt_id = VStr ''r3''\<rparr>,
            \<lparr>pt_date = Naive 63871459200000000, pt_value = 142, pt_unit = VStr ''mg/dL'',
              pt_reference_range = VStr '''', pt_id = VStr ''r1''\<rparr>]"
  by code_simp

end
